theory Spec2Isabelle
  imports Main "HOL-Library.AList"
begin

section \<open>JavaScript values that reach CloudStorageSync\<close>

text \<open>
  The class CloudStorageSync (the folder-aware version, first document of
  \<^verbatim>\<open>src/unnamed/part_001\<close>) only handles values that come out of
  \<^verbatim>\<open>JSON.parse\<close> and \<^verbatim>\<open>response.json()\<close>, plus \<^verbatim>\<open>null\<close> and
  \<^verbatim>\<open>undefined\<close>. A JSON object is an association list in property insertion
  order with pairwise different keys; numbers are kept as integers, the code never
  calculates with them. Strings are byte strings (UTF-8). The engine's rule that
  array-index keys of an ordinary object are enumerated before the other keys is not
  represented: properties stay in insertion order.
\<close>

datatype json =
    JNull
  | JBool bool
  | JNum int
  | JStr string
  | JArr "json list"
  | JObj "(string \<times> json) list"

text \<open>A JavaScript value: \<open>None\<close> is \<^verbatim>\<open>undefined\<close>.\<close>

type_synonym jsval = "json option"

text \<open>ToBoolean, as used by \<^verbatim>\<open>if (x)\<close>, \<^verbatim>\<open>!x\<close>, \<^verbatim>\<open>x ? a : b\<close>, \<^verbatim>\<open>x || y\<close>, \<^verbatim>\<open>x && y\<close>.\<close>

fun truthy :: "jsval \<Rightarrow> bool" where
  "truthy None = False"
| "truthy (Some JNull) = False"
| "truthy (Some (JBool b)) = b"
| "truthy (Some (JNum n)) = (n \<noteq> 0)"
| "truthy (Some (JStr s)) = (s \<noteq> [])"
| "truthy (Some (JArr xs)) = True"
| "truthy (Some (JObj kvs)) = True"

subsection \<open>Decimal numerals\<close>

definition digit_char :: "nat \<Rightarrow> char" where
  "digit_char d = char_of (48 + d)"

function string_of_nat :: "nat \<Rightarrow> string" where
  "string_of_nat n =
     (if n < 10 then [digit_char n] else string_of_nat (n div 10) @ [digit_char (n mod 10)])"
  by pat_completeness auto
termination
  by (relation "measure id") auto

declare string_of_nat.simps [simp del]

definition string_of_int :: "int \<Rightarrow> string" where
  "string_of_int i = (if i < 0 then CHR ''-'' # string_of_nat (nat (- i)) else string_of_nat (nat i))"

subsection \<open>Own enumerable properties and object spread\<close>

text \<open>
  \<^verbatim>\<open>{ ...a, ...b }\<close> copies the own enumerable properties of \<^verbatim>\<open>a\<close>, then those of
  \<^verbatim>\<open>b\<close>, into a fresh object. \<^verbatim>\<open>null\<close>, \<^verbatim>\<open>undefined\<close>, booleans and numbers
  have none; a string has its characters and an array its elements under the keys
  \<^verbatim>\<open>"0"\<close>, \<^verbatim>\<open>"1"\<close>, ...
\<close>

definition index_keys :: "nat \<Rightarrow> string list" where
  "index_keys n = map string_of_nat [0..<n]"

fun own_props :: "json \<Rightarrow> (string \<times> json) list" where
  "own_props JNull = []"
| "own_props (JBool b) = []"
| "own_props (JNum n) = []"
| "own_props (JStr s) = zip (index_keys (length s)) (map (\<lambda>c. JStr [c]) s)"
| "own_props (JArr xs) = zip (index_keys (length xs)) xs"
| "own_props (JObj kvs) = kvs"

text \<open>
  Defining a property on the target: an existing key keeps its place and takes the new
  value, a new key goes to the end (\<^const>\<open>AList.update\<close>).
\<close>

definition spread_into :: "(string \<times> json) list \<Rightarrow> json \<Rightarrow> (string \<times> json) list" where
  "spread_into target src = fold (\<lambda>(k, v) acc. AList.update k v acc) (own_props src) target"

text \<open>
  Lines 443-444 of syncData:
  \<^verbatim>\<open>const mergedData = { ...localData, ...cloudData };\<close>
\<close>

definition merge_docs :: "json \<Rightarrow> json \<Rightarrow> json" where
  "merge_docs localData cloudData = JObj (spread_into (spread_into [] localData) cloudData)"

subsection \<open>Reading properties\<close>

datatype error =
    Error string
  | TypeError
  | SyntaxError
  | FetchFailed
  | QuotaExceeded

text \<open>
  \<^verbatim>\<open>v.k\<close> for the property names the class reads (\<^verbatim>\<open>entries\<close>, \<^verbatim>\<open>files\<close>,
  \<^verbatim>\<open>id\<close>, \<^verbatim>\<open>name\<close>, \<^verbatim>\<open>type\<close>, \<^verbatim>\<open>length\<close>). Reading from \<^verbatim>\<open>null\<close> or
  \<^verbatim>\<open>undefined\<close> throws a TypeError. None of these names is inherited by a plain
  object, a string, a number or a boolean. An array inherits the method
  \<^verbatim>\<open>entries\<close>; it is read here as \<^verbatim>\<open>undefined\<close>, which the two places that read
  \<^verbatim>\<open>data.entries\<close> cannot tell apart: a function has length 0, so ensureBoxFolder goes
  on to create, and it has no \<^verbatim>\<open>find\<close>, so findBoxFile throws a TypeError.
\<close>

fun get_prop :: "jsval \<Rightarrow> string \<Rightarrow> error + jsval" where
  "get_prop None k = Inl TypeError"
| "get_prop (Some JNull) k = Inl TypeError"
| "get_prop (Some (JBool b)) k = Inr None"
| "get_prop (Some (JNum n)) k = Inr None"
| "get_prop (Some (JStr s)) k = Inr (if k = ''length'' then Some (JNum (int (length s))) else None)"
| "get_prop (Some (JArr xs)) k = Inr (if k = ''length'' then Some (JNum (int (length xs))) else None)"
| "get_prop (Some (JObj kvs)) k = Inr (map_of kvs k)"

text \<open>\<^verbatim>\<open>v[0]\<close>.\<close>

fun get_first :: "jsval \<Rightarrow> error + jsval" where
  "get_first None = Inl TypeError"
| "get_first (Some JNull) = Inl TypeError"
| "get_first (Some (JBool b)) = Inr None"
| "get_first (Some (JNum n)) = Inr None"
| "get_first (Some (JStr s)) = Inr (case s of [] \<Rightarrow> None | c # _ \<Rightarrow> Some (JStr [c]))"
| "get_first (Some (JArr xs)) = Inr (case xs of [] \<Rightarrow> None | x # _ \<Rightarrow> Some x)"
| "get_first (Some (JObj kvs)) = Inr (map_of kvs ''0'')"

subsection \<open>Conversion to string and to number\<close>

fun join_comma :: "string list \<Rightarrow> string" where
  "join_comma [] = []"
| "join_comma [x] = x"
| "join_comma (x # y # ys) = x @ '','' @ join_comma (y # ys)"

text \<open>
  ToString of a JSON value, as a template literal \<^verbatim>\<open>${v}\<close> and
  \<^verbatim>\<open>Array.prototype.join\<close> apply it. Two cases lie outside: an integer of 22 or more
  digits, which the engine prints with an exponent, and an object that has an own
  property \<^verbatim>\<open>toString\<close>, for which ToString throws (the function below gives the digits
  and \<^verbatim>\<open>[object Object]\<close>). The comparison \<^verbatim>\<open>v > 0\<close> below does account for the
  second.
\<close>

fun to_str :: "json \<Rightarrow> string" where
  "to_str JNull = ''null''"
| "to_str (JBool b) = (if b then ''true'' else ''false'')"
| "to_str (JNum n) = string_of_int n"
| "to_str (JStr s) = s"
| "to_str (JArr xs) = join_comma (map (\<lambda>x. if x = JNull then [] else to_str x) xs)"
| "to_str (JObj kvs) = ''[object Object]''"

definition template :: "jsval \<Rightarrow> string" where
  "template v = (case v of None \<Rightarrow> ''undefined'' | Some j \<Rightarrow> to_str j)"

text \<open>
  Conversion of an object to a primitive succeeds unless the object, or an object inside
  an array that is being joined, has an own property \<^verbatim>\<open>toString\<close>: what JSON put
  there is not callable, and the inherited \<^verbatim>\<open>valueOf\<close> returns the object itself.
\<close>

fun printable :: "json \<Rightarrow> bool" where
  "printable (JObj kvs) = (''toString'' \<notin> fst ` set kvs)"
| "printable (JArr xs) = (\<forall>x \<in> set xs. printable x)"
| "printable j = True"

text \<open>
  The white space and line terminators that StringToNumber strips, in UTF-8: TAB, LF, VT,
  FF, CR, SP, U+00A0, U+1680, U+2000 to U+200A, U+2028, U+2029, U+202F, U+205F, U+3000,
  U+FEFF.
\<close>

definition space_tokens :: "string list" where
  "space_tokens =
     [[CHR 0x09], [CHR 0x0A], [CHR 0x0B], [CHR 0x0C], [CHR 0x0D], [CHR 0x20],
      [CHR 0xC2, CHR 0xA0], [CHR 0xE1, CHR 0x9A, CHR 0x80]]
     @ map (\<lambda>n. [CHR 0xE2, CHR 0x80, char_of n]) [0x80 ..< (0x8B :: nat)]
     @ [[CHR 0xE2, CHR 0x80, CHR 0xA8], [CHR 0xE2, CHR 0x80, CHR 0xA9],
        [CHR 0xE2, CHR 0x80, CHR 0xAF], [CHR 0xE2, CHR 0x81, CHR 0x9F],
        [CHR 0xE3, CHR 0x80, CHR 0x80], [CHR 0xEF, CHR 0xBB, CHR 0xBF]]"

function strip_tokens :: "string list \<Rightarrow> string \<Rightarrow> string" where
  "strip_tokens tokens s =
     (case find (\<lambda>w. w \<noteq> [] \<and> take (length w) s = w) tokens of
        None \<Rightarrow> s
      | Some w \<Rightarrow> strip_tokens tokens (drop (length w) s))"
  by pat_completeness auto
termination
proof (relation "measure (\<lambda>(tokens, s). length s)")
  show "wf (measure (\<lambda>(tokens, s). length s))" by simp
next
  fix tokens :: "string list" and s w :: string
  assume "find (\<lambda>w. w \<noteq> [] \<and> take (length w) s = w) tokens = Some w"
  then have w: "w \<noteq> []" "take (length w) s = w" by (auto simp: find_Some_iff)
  then have "s \<noteq> []" by auto
  with w show "((tokens, drop (length w) s), (tokens, s)) \<in> measure (\<lambda>(tokens, s). length s)"
    by simp
qed

declare strip_tokens.simps [simp del]

definition trim :: "string \<Rightarrow> string" where
  "trim s = rev (strip_tokens (map rev space_tokens) (rev (strip_tokens space_tokens s)))"

definition is_digit :: "char \<Rightarrow> bool" where
  "is_digit c = (48 \<le> (of_char c :: nat) \<and> (of_char c :: nat) \<le> 57)"

definition digits_value :: "string \<Rightarrow> int" where
  "digits_value ds = foldl (\<lambda>acc c. 10 * acc + ((of_char c :: int) - 48)) 0 ds"

definition radix_digit :: "nat \<Rightarrow> char \<Rightarrow> bool" where
  "radix_digit radix c =
     (let n = (of_char c :: nat)
      in (48 \<le> n \<and> n < 48 + min radix 10)
         \<or> (radix = 16 \<and> ((65 \<le> n \<and> n \<le> 70) \<or> (97 \<le> n \<and> n \<le> 102))))"

text \<open>
  \<^verbatim>\<open>0x\<close>, \<^verbatim>\<open>0o\<close> and \<^verbatim>\<open>0b\<close> numerals (either case of the letter, no sign): \<open>Some z\<close>
  for such a numeral, with \<open>z\<close> telling whether its value is zero.
\<close>

definition radix_literal :: "string \<Rightarrow> bool option" where
  "radix_literal t =
     (case t of
        z # x # ds \<Rightarrow>
          (let radix = (if x = CHR ''x'' \<or> x = CHR ''X'' then 16
                        else if x = CHR ''o'' \<or> x = CHR ''O'' then 8
                        else if x = CHR ''b'' \<or> x = CHR ''B'' then 2 else (0 :: nat))
           in if z = CHR ''0'' \<and> radix \<noteq> 0 \<and> ds \<noteq> [] \<and> list_all (radix_digit radix) ds
              then Some (list_all (\<lambda>c. c = CHR ''0'') ds) else None)
      | _ \<Rightarrow> None)"

text \<open>
  An unsigned decimal numeral \<^verbatim>\<open>digits\<close>, \<^verbatim>\<open>digits.digits\<close>, \<^verbatim>\<open>digits.\<close> or
  \<^verbatim>\<open>.digits\<close>, each with an optional exponent part: its digits read as one
  number \<open>m\<close> and the power of ten \<open>e\<close> that goes with them, the value being
  \<open>m * 10 ^ e\<close>.
\<close>

definition decimal_literal :: "string \<Rightarrow> (int \<times> int) option" where
  "decimal_literal u =
     (let whole = takeWhile is_digit u;
          r1 = dropWhile is_digit u;
          dot = (r1 \<noteq> [] \<and> hd r1 = CHR ''.'');
          frac = (if dot then takeWhile is_digit (tl r1) else []);
          r2 = (if dot then dropWhile is_digit (tl r1) else r1);
          m = digits_value (whole @ frac)
      in if whole = [] \<and> frac = [] then None
         else if r2 = [] then Some (m, - int (length frac))
         else if hd r2 = CHR ''e'' \<or> hd r2 = CHR ''E'' then
           (let r3 = tl r2;
                signed = (r3 \<noteq> [] \<and> (hd r3 = CHR ''+'' \<or> hd r3 = CHR ''-''));
                ds = (if signed then tl r3 else r3);
                ex = (if signed \<and> hd r3 = CHR ''-'' then - digits_value ds
                      else digits_value ds)
            in if ds \<noteq> [] \<and> list_all is_digit ds then Some (m, ex - int (length frac))
               else None)
         else None)"

text \<open>
  The value \<open>m * 10 ^ e\<close> becomes the Number 0 when it is 0 or at most \<open>2 ^ -1075\<close>,
  half of the least positive Number (a tie goes to the even neighbour, 0).
\<close>

definition rounds_to_zero :: "int \<Rightarrow> int \<Rightarrow> bool" where
  "rounds_to_zero m e = (m = 0 \<or> (e < 0 \<and> m * 2 ^ 1075 \<le> 10 ^ nat (- e)))"

datatype sign = Minus | Nought | Plus

text \<open>
  StringToNumber, as far as a comparison with 0 needs it: \<open>None\<close> is NaN, otherwise the
  sign of the Number (negative zero counts as \<open>Nought\<close>). Numbers of JSON are integers
  here: \<^const>\<open>JNum\<close>.
\<close>

definition str_sign :: "string \<Rightarrow> sign option" where
  "str_sign s =
     (let t = trim s
      in if t = [] then Some Nought
         else (case radix_literal t of
                 Some z \<Rightarrow> Some (if z then Nought else Plus)
               | None \<Rightarrow>
                   (let neg = (hd t = CHR ''-'');
                        u = (if hd t = CHR ''+'' \<or> hd t = CHR ''-'' then tl t else t)
                    in if u = ''Infinity'' then Some (if neg then Minus else Plus)
                       else (case decimal_literal u of
                               None \<Rightarrow> None
                             | Some (m, e) \<Rightarrow>
                                 Some (if rounds_to_zero m e then Nought
                                       else if neg then Minus else Plus)))))"

text \<open>ToNumber of a value, to the same extent; converting an object may throw.\<close>

fun to_number :: "jsval \<Rightarrow> error + sign option" where
  "to_number None = Inr None"
| "to_number (Some JNull) = Inr (Some Nought)"
| "to_number (Some (JBool b)) = Inr (Some (if b then Plus else Nought))"
| "to_number (Some (JNum n)) = Inr (Some (if n < 0 then Minus else if n = 0 then Nought else Plus))"
| "to_number (Some (JStr s)) = Inr (str_sign s)"
| "to_number (Some (JArr xs)) =
     (if printable (JArr xs) then Inr (str_sign (to_str (JArr xs))) else Inl TypeError)"
| "to_number (Some (JObj kvs)) = (if printable (JObj kvs) then Inr None else Inl TypeError)"

text \<open>\<^verbatim>\<open>v > 0\<close>.\<close>

definition gt_zero :: "jsval \<Rightarrow> error + bool" where
  "gt_zero v = (case to_number v of Inl e \<Rightarrow> Inl e | Inr c \<Rightarrow> Inr (c = Some Plus))"

subsection \<open>encodeURIComponent and URLSearchParams\<close>

definition unreserved :: "char \<Rightarrow> bool" where
  "unreserved c =
     (let n = (of_char c :: nat)
      in (65 \<le> n \<and> n \<le> 90) \<or> (97 \<le> n \<and> n \<le> 122) \<or> (48 \<le> n \<and> n \<le> 57)
         \<or> c \<in> set [CHR ''-'', CHR ''_'', CHR ''.'', CHR ''!'', CHR ''~'', CHR ''*'', CHR 0x27,
                      CHR ''('', CHR '')''])"

definition hex_digit :: "nat \<Rightarrow> char" where
  "hex_digit d = (if d < 10 then char_of (48 + d) else char_of (55 + d))"

definition encodeURIComponent :: "string \<Rightarrow> string" where
  "encodeURIComponent s =
     concat (map (\<lambda>c. if unreserved c then [c]
                       else [CHR ''%'', hex_digit ((of_char c :: nat) div 16),
                             hex_digit ((of_char c :: nat) mod 16)]) s)"

definition hex_val :: "char \<Rightarrow> nat option" where
  "hex_val c =
     (let n = (of_char c :: nat)
      in if 48 \<le> n \<and> n \<le> 57 then Some (n - 48)
         else if 65 \<le> n \<and> n \<le> 70 then Some (n - 55)
         else if 97 \<le> n \<and> n \<le> 102 then Some (n - 87)
         else None)"

fun percent_decode :: "string \<Rightarrow> string" where
  "percent_decode (c # h # l # rest) =
     (if c = CHR ''%'' then
        (case (hex_val h, hex_val l) of
           (Some a, Some b) \<Rightarrow> char_of (16 * a + b) # percent_decode rest
         | _ \<Rightarrow> c # percent_decode (h # l # rest))
      else c # percent_decode (h # l # rest))"
| "percent_decode cs = cs"

fun split_on :: "char \<Rightarrow> string \<Rightarrow> string list" where
  "split_on d [] = [[]]"
| "split_on d (c # cs) =
     (if c = d then [] # split_on d cs
      else (case split_on d cs of w # ws \<Rightarrow> (c # w) # ws | [] \<Rightarrow> [[c]]))"

definition form_decode :: "string \<Rightarrow> string" where
  "form_decode s = percent_decode (map (\<lambda>c. if c = CHR ''+'' then CHR '' '' else c) s)"

text \<open>
  \<^verbatim>\<open>new URLSearchParams(init)\<close> on a string: one leading \<^verbatim>\<open>?\<close> is dropped, the rest
  is split at \<^verbatim>\<open>&\<close>, empty pieces are skipped, each piece is split at its first
  \<^verbatim>\<open>=\<close>, and name and value are form-decoded.
\<close>

definition URLSearchParams :: "string \<Rightarrow> (string \<times> string) list" where
  "URLSearchParams init =
     (let q = (case init of c # r \<Rightarrow> (if c = CHR ''?'' then r else init) | [] \<Rightarrow> [])
      in map (\<lambda>piece. (form_decode (takeWhile (\<lambda>c. c \<noteq> CHR ''='') piece),
                        form_decode (drop 1 (dropWhile (\<lambda>c. c \<noteq> CHR ''='') piece))))
             (filter (\<lambda>piece. piece \<noteq> []) (split_on CHR ''&'' q)))"

text \<open>\<^verbatim>\<open>params.get(name)\<close>: the value of the first pair with that name, or null.\<close>

definition params_get :: "(string \<times> string) list \<Rightarrow> string \<Rightarrow> string option" where
  "params_get params name = map_of params name"


section \<open>The browser and the network\<close>

datatype form_part =
    Field string string
  | Blob string string string

datatype body =
    NoBody
  | TextBody string
  | FormData "form_part list"

record request =
  req_method :: string
  req_url :: string
  req_headers :: "(string \<times> string) list"
  req_body :: body

text \<open>
  What \<^verbatim>\<open>await fetch(...)\<close> gives: a rejection, or a response with its status and its
  body as \<^verbatim>\<open>response.json()\<close> reads it (\<open>None\<close> when the body is not JSON text).
\<close>

datatype fetch_result =
    Rejected
  | Response nat "json option"

text \<open>
  The environment of one instance. \<open>net i\<close> is the network's answer to the
  \<open>i\<close>-th request the page issues (counted from 0). The class is sequential and
  deterministic, so every run against a server, whatever the server's state and however
  it reads the requests, is the run against the sequence of answers that server gave;
  a statement for all \<open>net\<close> covers all servers. \<^verbatim>\<open>JSON.parse\<close> and
  \<^verbatim>\<open>JSON.stringify\<close> are the platform's and are parameters (\<open>None\<close>: a SyntaxError),
  as is the browser's decision to accept a write to localStorage.
\<close>

record env =
  net :: "nat \<Rightarrow> fetch_result"
  JSON_parse :: "string \<Rightarrow> json option"
  JSON_stringify :: "json \<Rightarrow> string"
  storage_accepts :: "(string \<Rightarrow> string option) \<Rightarrow> string \<Rightarrow> string \<Rightarrow> bool"

text \<open>
  The fields of the instance that change (\<^verbatim>\<open>fileName\<close>, \<^verbatim>\<open>settingsFileName\<close> and
  \<^verbatim>\<open>folderName\<close> are set by the constructor and never assigned again), the page's
  localStorage and location, and the requests issued so far, oldest first.
\<close>

record sync_state =
  provider :: "string option"
  accessToken :: "string option"
  folderId :: jsval
  localStorage :: "string \<Rightarrow> string option"
  pathname :: string
  search :: string
  hash :: string
  requests :: "request list"

definition fileName :: string where
  "fileName = ''planner-data.json''"

definition settingsFileName :: string where
  "settingsFileName = ''planner-settings.json''"

definition folderName :: string where
  "folderName = ''Digital Planner''"

text \<open>The constructor, lines 8-15, in a page with the given localStorage and location.\<close>

definition constructor :: "(string \<Rightarrow> string option) \<Rightarrow> string \<Rightarrow> string \<Rightarrow> string \<Rightarrow> sync_state" where
  "constructor store path query frag =
     \<lparr>provider = None, accessToken = None, folderId = Some JNull, localStorage = store,
      pathname = path, search = query, hash = frag, requests = []\<rparr>"

subsection \<open>Sequencing with exceptions\<close>

type_synonym 'a io = "sync_state \<Rightarrow> (error + 'a) \<times> sync_state"

definition succeed :: "'a \<Rightarrow> 'a io" where
  "succeed x s = (Inr x, s)"

definition throw :: "error \<Rightarrow> 'a io" where
  "throw e s = (Inl e, s)"

definition lift :: "error + 'a \<Rightarrow> 'a io" where
  "lift r s = (r, s)"

definition and_then :: "'a io \<Rightarrow> ('a \<Rightarrow> 'b io) \<Rightarrow> 'b io" where
  "and_then m f s = (case m s of (Inl e, s') \<Rightarrow> (Inl e, s') | (Inr x, s') \<Rightarrow> f x s')"

subsection \<open>fetch, response, localStorage\<close>

definition fetch :: "env \<Rightarrow> request \<Rightarrow> (nat \<times> json option) io" where
  "fetch E req s =
     (let s' = s\<lparr>requests := requests s @ [req]\<rparr>
      in case net E (length (requests s)) of
           Rejected \<Rightarrow> (Inl FetchFailed, s')
         | Response status content \<Rightarrow> (Inr (status, content), s'))"

text \<open>\<^verbatim>\<open>response.ok\<close>.\<close>

definition ok :: "nat \<times> json option \<Rightarrow> bool" where
  "ok response = (200 \<le> fst response \<and> fst response \<le> 299)"

text \<open>\<^verbatim>\<open>await response.json()\<close>.\<close>

definition json_of :: "nat \<times> json option \<Rightarrow> json io" where
  "json_of response = lift (case snd response of None \<Rightarrow> Inl SyntaxError | Some j \<Rightarrow> Inr j)"

text \<open>The header \<^verbatim>\<open>'Authorization': `Bearer ${this.accessToken}`\<close>.\<close>

definition authorization :: "sync_state \<Rightarrow> string \<times> string" where
  "authorization s =
     (''Authorization'', ''Bearer '' @ (case accessToken s of None \<Rightarrow> ''null'' | Some t \<Rightarrow> t))"

definition setItem :: "env \<Rightarrow> string \<Rightarrow> string \<Rightarrow> unit io" where
  "setItem E k v s =
     (if storage_accepts E (localStorage s) k v
      then (Inr (), s\<lparr>localStorage := (localStorage s)(k \<mapsto> v)\<rparr>)
      else (Inl QuotaExceeded, s))"

text \<open>The key \<^verbatim>\<open>`${this.provider}_access_token`\<close>.\<close>

definition token_key :: "string option \<Rightarrow> string" where
  "token_key p = (case p of None \<Rightarrow> ''null'' | Some n \<Rightarrow> n) @ ''_access_token''"

section \<open>CloudStorageSync\<close>

subsection \<open>initialize, handleAuthCallback, disconnect\<close>

text \<open>Lines 21-32.\<close>

definition initialize :: "string \<Rightarrow> sync_state \<Rightarrow> bool \<times> sync_state" where
  "initialize p s =
     (let s1 = s\<lparr>provider := Some p\<rparr>
      in case localStorage s1 (token_key (Some p)) of
           None \<Rightarrow> (False, s1)
         | Some savedToken \<Rightarrow>
             if savedToken \<noteq> [] then (True, s1\<lparr>accessToken := Some savedToken\<rparr>)
             else (False, s1))"

text \<open>
  Lines 91-106. \<^verbatim>\<open>replaceState({}, document.title, window.location.pathname)\<close> makes the
  path alone the visible URL: query and fragment are gone. (A path that begins with two
  slashes, which the URL parser would read as a host, is not accounted for.)
\<close>

definition handleAuthCallback :: "env \<Rightarrow> bool io" where
  "handleAuthCallback E s =
     (let fragment = drop 1 (hash s);
          params = URLSearchParams fragment
      in case params_get params ''access_token'' of
           None \<Rightarrow> (Inr False, s)
         | Some token \<Rightarrow>
             if token \<noteq> [] then
               and_then (setItem E (token_key (provider s)) token)
                 (\<lambda>_ s2. (Inr True, s2\<lparr>search := [], hash := []\<rparr>))
                 (s\<lparr>accessToken := Some token\<rparr>)
             else (Inr False, s))"

text \<open>Lines 465-469.\<close>

definition disconnect :: "sync_state \<Rightarrow> sync_state" where
  "disconnect s =
     s\<lparr>localStorage := (localStorage s)(token_key (provider s) := None),
       accessToken := None, folderId := Some JNull\<rparr>"

subsection \<open>Folder resolution\<close>

text \<open>
  The part that ensureBoxFolder (lines 164-171, with \<^verbatim>\<open>entries\<close>) and
  ensureGDriveFolder (lines 326-333, with \<^verbatim>\<open>files\<close>) share word for word:
  \<^verbatim>\<open>if (data.entries && data.entries.length > 0) { this.folderId = data.entries[0].id; ... }\<close>.
  \<open>Inr (Some id)\<close> is the identifier taken from the first listed folder, \<open>Inr None\<close>
  means the condition was false.
\<close>

definition first_listed_id :: "string \<Rightarrow> json \<Rightarrow> error + jsval option" where
  "first_listed_id list_name data =
     (case get_prop (Some data) list_name of
        Inl e \<Rightarrow> Inl e
      | Inr listed \<Rightarrow>
          if \<not> truthy listed then Inr None
          else (case get_prop listed ''length'' of
                  Inl e \<Rightarrow> Inl e
                | Inr len \<Rightarrow>
                    (case gt_zero len of
                       Inl e \<Rightarrow> Inl e
                     | Inr False \<Rightarrow> Inr None
                     | Inr True \<Rightarrow>
                         (case get_first listed of
                            Inl e \<Rightarrow> Inl e
                          | Inr first \<Rightarrow>
                              (case get_prop first ''id'' of
                                 Inl e \<Rightarrow> Inl e
                               | Inr ident \<Rightarrow> Inr (Some ident))))))"

definition box_search_request :: "sync_state \<Rightarrow> request" where
  "box_search_request s =
     \<lparr>req_method = ''GET'',
      req_url = ''https://api.box.com/2.0/search?query='' @ encodeURIComponent folderName
                @ ''&type=folder'',
      req_headers = [authorization s],
      req_body = NoBody\<rparr>"

definition box_create_folder_request :: "env \<Rightarrow> sync_state \<Rightarrow> request" where
  "box_create_folder_request E s =
     \<lparr>req_method = ''POST'',
      req_url = ''https://api.box.com/2.0/folders'',
      req_headers = [authorization s, (''Content-Type'', ''application/json'')],
      req_body = TextBody (JSON_stringify E
                   (JObj [(''name'', JStr folderName), (''parent'', JObj [(''id'', JStr ''0'')])]))\<rparr>"

text \<open>
  The tail that both folder functions share (lines 186-193 and 348-355): a response
  that is not ok throws, otherwise \<^verbatim>\<open>this.folderId = folder.id\<close>.
\<close>

definition adopt_created_folder :: "string \<Rightarrow> nat \<times> json option \<Rightarrow> jsval io" where
  "adopt_created_folder failure createResponse =
     (if \<not> ok createResponse then throw (Error failure)
      else and_then (json_of createResponse) (\<lambda>folder.
           and_then (lift (get_prop (Some folder) ''id'')) (\<lambda>ident s.
             (Inr ident, s\<lparr>folderId := ident\<rparr>))))"

text \<open>
  The search step that both share (lines 164-171 and 326-333): \<open>Inr (Some id)\<close> when
  the folder was found and cached, \<open>Inr None\<close> when the function goes on to create.
\<close>

definition adopt_found_folder :: "string \<Rightarrow> nat \<times> json option \<Rightarrow> jsval option io" where
  "adopt_found_folder list_name searchResponse =
     (if \<not> ok searchResponse then succeed None
      else and_then (json_of searchResponse) (\<lambda>data.
           and_then (lift (first_listed_id list_name data)) (\<lambda>found s.
             case found of
               None \<Rightarrow> (Inr None, s)
             | Some ident \<Rightarrow> (Inr (Some ident), s\<lparr>folderId := ident\<rparr>))))"

text \<open>Lines 153-194.\<close>

definition ensureBoxFolder :: "env \<Rightarrow> jsval io" where
  "ensureBoxFolder E s =
     (if truthy (folderId s) then (Inr (folderId s), s)
      else and_then (fetch E (box_search_request s)) (\<lambda>searchResponse.
           and_then (adopt_found_folder ''entries'' searchResponse) (\<lambda>found.
             case found of
               Some ident \<Rightarrow> succeed ident
             | None \<Rightarrow>
                 (\<lambda>s1. and_then (fetch E (box_create_folder_request E s1))
                          (adopt_created_folder ''Failed to create folder in Box'') s1))) s)"

definition gdrive_folder_query :: string where
  "gdrive_folder_query =
     ''name='' @ [CHR 0x27] @ folderName @ [CHR 0x27]
     @ '' and mimeType='' @ [CHR 0x27] @ ''application/vnd.google-apps.folder'' @ [CHR 0x27]
     @ '' and trashed=false''"

definition gdrive_search_request :: "sync_state \<Rightarrow> request" where
  "gdrive_search_request s =
     \<lparr>req_method = ''GET'',
      req_url = ''https://www.googleapis.com/drive/v3/files?q=''
                @ encodeURIComponent gdrive_folder_query,
      req_headers = [authorization s],
      req_body = NoBody\<rparr>"

definition gdrive_create_folder_request :: "env \<Rightarrow> sync_state \<Rightarrow> request" where
  "gdrive_create_folder_request E s =
     \<lparr>req_method = ''POST'',
      req_url = ''https://www.googleapis.com/drive/v3/files'',
      req_headers = [authorization s, (''Content-Type'', ''application/json'')],
      req_body = TextBody (JSON_stringify E
                   (JObj [(''name'', JStr folderName),
                          (''mimeType'', JStr ''application/vnd.google-apps.folder'')]))\<rparr>"

text \<open>Lines 314-356.\<close>

definition ensureGDriveFolder :: "env \<Rightarrow> jsval io" where
  "ensureGDriveFolder E s =
     (if truthy (folderId s) then (Inr (folderId s), s)
      else and_then (fetch E (gdrive_search_request s)) (\<lambda>searchResponse.
           and_then (adopt_found_folder ''files'' searchResponse) (\<lambda>found.
             case found of
               Some ident \<Rightarrow> succeed ident
             | None \<Rightarrow>
                 (\<lambda>s1. and_then (fetch E (gdrive_create_folder_request E s1))
                          (adopt_created_folder ''Failed to create folder in Google Drive'') s1))) s)"

subsection \<open>File lookup\<close>

definition box_items_request :: "jsval \<Rightarrow> sync_state \<Rightarrow> request" where
  "box_items_request folder s =
     \<lparr>req_method = ''GET'',
      req_url = ''https://api.box.com/2.0/folders/'' @ template folder
                @ ''/items?fields=id,name&limit=1000'',
      req_headers = [authorization s],
      req_body = NoBody\<rparr>"

text \<open>
  \<^verbatim>\<open>entries.find(item => item.name === fileName && item.type === 'file')\<close> on an
  array: the first item that passes, or \<^verbatim>\<open>undefined\<close>; reading \<^verbatim>\<open>name\<close> from
  a \<^verbatim>\<open>null\<close> item throws.
\<close>

fun find_file_item :: "string \<Rightarrow> json list \<Rightarrow> error + jsval" where
  "find_file_item name [] = Inr None"
| "find_file_item name (item # items) =
     (case get_prop (Some item) ''name'' of
        Inl e \<Rightarrow> Inl e
      | Inr n \<Rightarrow>
          if n = Some (JStr name) then
            (case get_prop (Some item) ''type'' of
               Inl e \<Rightarrow> Inl e
             | Inr t \<Rightarrow> if t = Some (JStr ''file'') then Inr (Some item)
                        else find_file_item name items)
          else find_file_item name items)"

text \<open>
  Lines 263-265. \<^verbatim>\<open>find\<close> exists on arrays only; on anything else the call throws
  a TypeError.
\<close>

definition box_file_id :: "string \<Rightarrow> json \<Rightarrow> error + jsval" where
  "box_file_id name data =
     (case get_prop (Some data) ''entries'' of
        Inl e \<Rightarrow> Inl e
      | Inr (Some (JArr items)) \<Rightarrow>
          (case find_file_item name items of
             Inl e \<Rightarrow> Inl e
           | Inr file \<Rightarrow> if truthy file then get_prop file ''id'' else Inr (Some JNull))
      | Inr _ \<Rightarrow> Inl TypeError)"

text \<open>Lines 252-266.\<close>

definition findBoxFile :: "env \<Rightarrow> string \<Rightarrow> jsval \<Rightarrow> jsval io" where
  "findBoxFile E name folder s =
     and_then (fetch E (box_items_request folder s)) (\<lambda>response.
       if \<not> ok response then succeed (Some JNull)
       else and_then (json_of response) (\<lambda>data. lift (box_file_id name data))) s"

definition gdrive_file_query :: "string \<Rightarrow> jsval \<Rightarrow> string" where
  "gdrive_file_query name folder =
     ''name='' @ [CHR 0x27] @ name @ [CHR 0x27] @ '' and '' @ [CHR 0x27] @ template folder
     @ [CHR 0x27] @ '' in parents and trashed=false''"

definition gdrive_files_request :: "string \<Rightarrow> jsval \<Rightarrow> sync_state \<Rightarrow> request" where
  "gdrive_files_request name folder s =
     \<lparr>req_method = ''GET'',
      req_url = ''https://www.googleapis.com/drive/v3/files?q=''
                @ encodeURIComponent (gdrive_file_query name folder),
      req_headers = [authorization s],
      req_body = NoBody\<rparr>"

text \<open>Line 424: \<^verbatim>\<open>data.files?.[0]?.id || null\<close>.\<close>

definition gdrive_file_id :: "json \<Rightarrow> error + jsval" where
  "gdrive_file_id data =
     (case get_prop (Some data) ''files'' of
        Inl e \<Rightarrow> Inl e
      | Inr files \<Rightarrow>
          (let first = (if files = None \<or> files = Some JNull then None
                        else (case get_first files of Inl e \<Rightarrow> None | Inr v \<Rightarrow> v));
               ident = (if first = None \<or> first = Some JNull then None
                        else (case get_prop first ''id'' of Inl e \<Rightarrow> None | Inr v \<Rightarrow> v))
           in Inr (if truthy ident then ident else Some JNull)))"

text \<open>Lines 412-425.\<close>

definition findGDriveFile :: "env \<Rightarrow> string \<Rightarrow> jsval \<Rightarrow> jsval io" where
  "findGDriveFile E name folder s =
     and_then (fetch E (gdrive_files_request name folder s)) (\<lambda>response.
       if \<not> ok response then succeed (Some JNull)
       else and_then (json_of response) (\<lambda>data. lift (gdrive_file_id data))) s"

subsection \<open>Box upload and download\<close>

text \<open>
  The object \<^verbatim>\<open>{ name: fileName, parent: { id: folderId } }\<close>; JSON.stringify leaves
  out a property whose value is \<^verbatim>\<open>undefined\<close>.
\<close>

definition box_attributes :: "string \<Rightarrow> jsval \<Rightarrow> json" where
  "box_attributes name folder =
     JObj [(''name'', JStr name),
           (''parent'', JObj (case folder of None \<Rightarrow> [] | Some j \<Rightarrow> [(''id'', j)]))]"

definition box_upload_url :: "jsval \<Rightarrow> string" where
  "box_upload_url fileId =
     (if truthy fileId then ''https://upload.box.com/api/2.0/files/'' @ template fileId @ ''/content''
      else ''https://upload.box.com/api/2.0/files/content'')"

definition box_upload_request :: "env \<Rightarrow> json \<Rightarrow> string \<Rightarrow> jsval \<Rightarrow> jsval \<Rightarrow> sync_state \<Rightarrow> request" where
  "box_upload_request E data name folder fileId s =
     \<lparr>req_method = ''POST'',
      req_url = box_upload_url fileId,
      req_headers = [authorization s],
      req_body = FormData [Field ''attributes'' (JSON_stringify E (box_attributes name folder)),
                           Blob ''file'' ''application/json'' (JSON_stringify E data)]\<rparr>"

text \<open>Lines 196-229.\<close>

definition uploadToBox :: "env \<Rightarrow> json \<Rightarrow> string \<Rightarrow> json io" where
  "uploadToBox E data name =
     and_then (ensureBoxFolder E) (\<lambda>folder.
     and_then (findBoxFile E name folder) (\<lambda>fileId.
     and_then (\<lambda>s. fetch E (box_upload_request E data name folder fileId s) s) (\<lambda>response.
       if \<not> ok response then throw (Error ''Failed to upload to Box'')
       else json_of response)))"

definition box_content_request :: "jsval \<Rightarrow> sync_state \<Rightarrow> request" where
  "box_content_request fileId s =
     \<lparr>req_method = ''GET'',
      req_url = ''https://api.box.com/2.0/files/'' @ template fileId @ ''/content'',
      req_headers = [authorization s],
      req_body = NoBody\<rparr>"

text \<open>Lines 231-250. The result \<open>JNull\<close> is the \<^verbatim>\<open>null\<close> of \<^verbatim>\<open>return null\<close>.\<close>

definition downloadFromBox :: "env \<Rightarrow> string \<Rightarrow> json io" where
  "downloadFromBox E name =
     and_then (ensureBoxFolder E) (\<lambda>folder.
     and_then (findBoxFile E name folder) (\<lambda>fileId.
       if \<not> truthy fileId then succeed JNull
       else and_then (\<lambda>s. fetch E (box_content_request fileId s) s) (\<lambda>response.
              if \<not> ok response then throw (Error ''Failed to download from Box'')
              else json_of response)))"

subsection \<open>OneDrive upload and download\<close>

definition onedrive_url :: "string \<Rightarrow> string" where
  "onedrive_url name =
     ''https://graph.microsoft.com/v1.0/me/drive/root:/'' @ folderName @ ''/'' @ name @ '':/content''"

definition onedrive_upload_request :: "env \<Rightarrow> json \<Rightarrow> string \<Rightarrow> sync_state \<Rightarrow> request" where
  "onedrive_upload_request E data name s =
     \<lparr>req_method = ''PUT'',
      req_url = onedrive_url name,
      req_headers = [authorization s, (''Content-Type'', ''application/json'')],
      req_body = TextBody (JSON_stringify E data)\<rparr>"

text \<open>Lines 271-291.\<close>

definition uploadToOneDrive :: "env \<Rightarrow> json \<Rightarrow> string \<Rightarrow> json io" where
  "uploadToOneDrive E data name =
     and_then (\<lambda>s. fetch E (onedrive_upload_request E data name s) s) (\<lambda>response.
       if \<not> ok response then throw (Error ''Failed to upload to OneDrive'')
       else json_of response)"

definition onedrive_download_request :: "string \<Rightarrow> sync_state \<Rightarrow> request" where
  "onedrive_download_request name s =
     \<lparr>req_method = ''GET'',
      req_url = onedrive_url name,
      req_headers = [authorization s],
      req_body = NoBody\<rparr>"

text \<open>Lines 293-309.\<close>

definition downloadFromOneDrive :: "env \<Rightarrow> string \<Rightarrow> json io" where
  "downloadFromOneDrive E name =
     and_then (\<lambda>s. fetch E (onedrive_download_request name s) s) (\<lambda>response.
       if fst response = 404 then succeed JNull
       else if \<not> ok response then throw (Error ''Failed to download from OneDrive'')
       else json_of response)"

subsection \<open>Google Drive upload and download\<close>

text \<open>
  The object \<^verbatim>\<open>{ name: fileName, mimeType: 'application/json', parents: [folderId] }\<close>;
  JSON.stringify writes an \<^verbatim>\<open>undefined\<close> array element as \<^verbatim>\<open>null\<close>.
\<close>

definition gdrive_metadata :: "string \<Rightarrow> jsval \<Rightarrow> json" where
  "gdrive_metadata name folder =
     JObj [(''name'', JStr name), (''mimeType'', JStr ''application/json''),
           (''parents'', JArr [case folder of None \<Rightarrow> JNull | Some j \<Rightarrow> j])]"

definition gdrive_upload_request :: "env \<Rightarrow> json \<Rightarrow> string \<Rightarrow> jsval \<Rightarrow> jsval \<Rightarrow> sync_state \<Rightarrow> request" where
  "gdrive_upload_request E data name folder fileId s =
     \<lparr>req_method = (if truthy fileId then ''PATCH'' else ''POST''),
      req_url = (if truthy fileId
                 then ''https://www.googleapis.com/upload/drive/v3/files/'' @ template fileId
                      @ ''?uploadType=multipart''
                 else ''https://www.googleapis.com/upload/drive/v3/files?uploadType=multipart''),
      req_headers = [authorization s],
      req_body = FormData [Blob ''metadata'' ''application/json''
                             (JSON_stringify E (gdrive_metadata name folder)),
                           Blob ''file'' ''application/json'' (JSON_stringify E data)]\<rparr>"

text \<open>Lines 358-391.\<close>

definition uploadToGDrive :: "env \<Rightarrow> json \<Rightarrow> string \<Rightarrow> json io" where
  "uploadToGDrive E data name =
     and_then (ensureGDriveFolder E) (\<lambda>folder.
     and_then (findGDriveFile E name folder) (\<lambda>fileId.
     and_then (\<lambda>s. fetch E (gdrive_upload_request E data name folder fileId s) s) (\<lambda>response.
       if \<not> ok response then throw (Error ''Failed to upload to Google Drive'')
       else json_of response)))"

definition gdrive_content_request :: "jsval \<Rightarrow> sync_state \<Rightarrow> request" where
  "gdrive_content_request fileId s =
     \<lparr>req_method = ''GET'',
      req_url = ''https://www.googleapis.com/drive/v3/files/'' @ template fileId @ ''?alt=media'',
      req_headers = [authorization s],
      req_body = NoBody\<rparr>"

text \<open>Lines 393-410.\<close>

definition downloadFromGDrive :: "env \<Rightarrow> string \<Rightarrow> json io" where
  "downloadFromGDrive E name =
     and_then (ensureGDriveFolder E) (\<lambda>folder.
     and_then (findGDriveFile E name folder) (\<lambda>fileId.
       if \<not> truthy fileId then succeed JNull
       else and_then (\<lambda>s. fetch E (gdrive_content_request fileId s) s) (\<lambda>response.
              if \<not> ok response then throw (Error ''Failed to download from Google Drive'')
              else json_of response)))"

subsection \<open>uploadData, downloadData, syncData\<close>

text \<open>Lines 111-124.\<close>

definition uploadData :: "env \<Rightarrow> json \<Rightarrow> bool \<Rightarrow> json io" where
  "uploadData E data isSettings s =
     (let name = (if isSettings then settingsFileName else fileName)
      in if provider s = Some ''box'' then uploadToBox E data name s
         else if provider s = Some ''onedrive'' then uploadToOneDrive E data name s
         else if provider s = Some ''gdrive'' then uploadToGDrive E data name s
         else throw (Error ''No provider configured'') s)"

text \<open>Lines 129-142.\<close>

definition downloadData :: "env \<Rightarrow> bool \<Rightarrow> json io" where
  "downloadData E isSettings s =
     (let name = (if isSettings then settingsFileName else fileName)
      in if provider s = Some ''box'' then downloadFromBox E name s
         else if provider s = Some ''onedrive'' then downloadFromOneDrive E name s
         else if provider s = Some ''gdrive'' then downloadFromGDrive E name s
         else throw (Error ''No provider configured'') s)"

text \<open>\<^verbatim>\<open>JSON.parse(localStorage.getItem(key) || '{}')\<close>.\<close>

definition read_local :: "env \<Rightarrow> string \<Rightarrow> json io" where
  "read_local E key s =
     (let stored = (case localStorage s key of None \<Rightarrow> ''{}'' | Some t \<Rightarrow> if t = [] then ''{}'' else t)
      in case JSON_parse E stored of None \<Rightarrow> (Inl SyntaxError, s) | Some j \<Rightarrow> (Inr j, s))"

definition data_key :: string where
  "data_key = ''advanced-planner-data-v4''"

definition settings_key :: string where
  "settings_key = ''planner-settings''"

text \<open>The body of the \<^verbatim>\<open>try\<close> block, lines 432-455.\<close>

definition sync_steps :: "env \<Rightarrow> json io" where
  "sync_steps E =
     and_then (downloadData E False) (\<lambda>cloudData.
     and_then (downloadData E True) (\<lambda>cloudSettings.
     and_then (read_local E data_key) (\<lambda>localData.
     and_then (read_local E settings_key) (\<lambda>localSettings.
       let mergedData = merge_docs localData cloudData;
           mergedSettings = merge_docs localSettings cloudSettings
       in and_then (setItem E data_key (JSON_stringify E mergedData)) (\<lambda>_.
          and_then (setItem E settings_key (JSON_stringify E mergedSettings)) (\<lambda>_.
          and_then (uploadData E mergedData False) (\<lambda>_.
          and_then (uploadData E mergedSettings True) (\<lambda>_.
            succeed mergedData))))))))"

text \<open>
  What syncData returns: \<^verbatim>\<open>{ success: true, data }\<close> or
  \<^verbatim>\<open>{ success: false, error: error.message }\<close>. The failure keeps the error value, whose
  message is the text given to \<^verbatim>\<open>new Error\<close> or, for an error raised by the
  platform, the platform's.
\<close>

datatype sync_result =
    Success json
  | Failure error

text \<open>Lines 430-460.\<close>

definition syncData :: "env \<Rightarrow> sync_state \<Rightarrow> sync_result \<times> sync_state" where
  "syncData E s =
     (case sync_steps E s of
        (Inr mergedData, s') \<Rightarrow> (Success mergedData, s')
      | (Inl e, s') \<Rightarrow> (Failure e, s'))"


section \<open>Vocabulary of the properties\<close>

text \<open>The requests issued between two states of the same instance.\<close>

definition issued :: "sync_state \<Rightarrow> sync_state \<Rightarrow> request list" where
  "issued s s' = drop (length (requests s)) (requests s')"

text \<open>The folder-creation calls of ensureBoxFolder and ensureGDriveFolder.\<close>

definition is_folder_create :: "request \<Rightarrow> bool" where
  "is_folder_create r =
     (req_method r = ''POST'' \<and>
      (req_url r = ''https://api.box.com/2.0/folders''
       \<or> req_url r = ''https://www.googleapis.com/drive/v3/files''))"

text \<open>
  A step that only talks to the network: it appends requests and may set
  \<^verbatim>\<open>this.folderId\<close>; token, provider, localStorage and location stay as they are.
\<close>

definition network_only :: "sync_state \<Rightarrow> sync_state \<Rightarrow> bool" where
  "network_only s s' = (\<exists>reqs ident. s' = s\<lparr>folderId := ident, requests := requests s @ reqs\<rparr>)"

text \<open>An operation all of whose runs only talk to the network.\<close>

definition net_op :: "'a io \<Rightarrow> bool" where
  "net_op m = (\<forall>s r s'. m s = (r, s') \<longrightarrow> network_only s s')"






section \<open>Concrete pages for the examples\<close>

text \<open>A network that gives the listed answers in order and then stops answering.\<close>

definition scripted :: "fetch_result list \<Rightarrow> nat \<Rightarrow> fetch_result" where
  "scripted answers i = (if i < length answers then answers ! i else Rejected)"

definition quoted :: "string \<Rightarrow> string" where
  "quoted s = [CHR 0x22] @ s @ [CHR 0x22]"

text \<open>JSON text of values whose strings need no escaping.\<close>

fun show_json :: "json \<Rightarrow> string" where
  "show_json JNull = ''null''"
| "show_json (JBool b) = (if b then ''true'' else ''false'')"
| "show_json (JNum n) = string_of_int n"
| "show_json (JStr s) = quoted s"
| "show_json (JArr xs) = ''['' @ join_comma (map show_json xs) @ '']''"
| "show_json (JObj kvs) =
     ''{'' @ join_comma (map (\<lambda>kv. quoted (fst kv) @ '':'' @ show_json (snd kv)) kvs) @ ''}''"

text \<open>
  A browser whose JSON.parse is given on the texts that occur in the example, whose
  JSON.stringify is \<^const>\<open>show_json\<close>, and whose localStorage accepts every write.
\<close>

definition browser :: "fetch_result list \<Rightarrow> json list \<Rightarrow> env" where
  "browser answers docs =
     \<lparr>net = scripted answers,
      JSON_parse = map_of (map (\<lambda>d. (show_json d, d)) docs),
      JSON_stringify = show_json,
      storage_accepts = (\<lambda>store k v. True)\<rparr>"

text \<open>
  Pages as they are after \<^verbatim>\<open>new CloudStorageSync()\<close> and
  \<^verbatim>\<open>initialize(provider)\<close> with a token \<^verbatim>\<open>tok\<close> in localStorage.
\<close>

definition box_page :: sync_state where
  "box_page =
     snd (initialize ''box''
            (constructor [''box_access_token'' \<mapsto> ''tok''] ''/digital-planner/'' [] []))"

definition gdrive_page :: sync_state where
  "gdrive_page =
     snd (initialize ''gdrive''
            (constructor [''gdrive_access_token'' \<mapsto> ''tok''] ''/digital-planner/'' [] []))"

definition onedrive_page :: sync_state where
  "onedrive_page =
     snd (initialize ''onedrive''
            (constructor [''onedrive_access_token'' \<mapsto> ''tok''] ''/digital-planner/'' [] []))"

text \<open>The same pages with a folder identifier already cached.\<close>

definition box_cached_page :: sync_state where
  "box_cached_page = box_page\<lparr>folderId := Some (JStr ''F1'')\<rparr>"

definition gdrive_cached_page :: sync_state where
  "gdrive_cached_page = gdrive_page\<lparr>folderId := Some (JStr ''G1'')\<rparr>"

text \<open>A local planner document, a remote one, and a page that holds the local one.\<close>

definition local_doc :: json where
  "local_doc = JObj [(''a'', JNum 1), (''b'', JNum 2)]"

definition remote_doc :: json where
  "remote_doc = JObj [(''b'', JNum 3), (''c'', JNum 4)]"

definition with_local_doc :: "sync_state \<Rightarrow> sync_state" where
  "with_local_doc s = s\<lparr>localStorage := (localStorage s)(data_key \<mapsto> show_json local_doc)\<rparr>"

text \<open>Pages that were opened by the redirect back from the authorization endpoint.\<close>

definition callback_page :: sync_state where
  "callback_page =
     snd (initialize ''box''
            (constructor (\<lambda>k. None) ''/digital-planner/'' []
               ''#access_token=XYZ&expires_in=3600''))"

definition error_page :: sync_state where
  "error_page =
     snd (initialize ''box''
            (constructor (\<lambda>k. None) ''/digital-planner/'' [] ''#error=access_denied''))"

definition plain_page :: sync_state where
  "plain_page = snd (initialize ''box'' (constructor (\<lambda>k. None) ''/digital-planner/'' [] []))"

text \<open>Answers of Box and of Google Drive.\<close>

definition box_folder_found :: fetch_result where
  "box_folder_found =
     Response 200 (Some (JObj [(''total_count'', JNum 1),
       (''entries'', JArr [JObj [(''type'', JStr ''folder''), (''id'', JStr ''F1''),
                                 (''name'', JStr ''Digital Planner'')]])]))"

definition box_no_folder :: fetch_result where
  "box_no_folder = Response 200 (Some (JObj [(''total_count'', JNum 0), (''entries'', JArr [])]))"

definition box_folder_made :: fetch_result where
  "box_folder_made =
     Response 201 (Some (JObj [(''type'', JStr ''folder''), (''id'', JStr ''F1''),
                               (''name'', JStr ''Digital Planner'')]))"

definition box_listing_with_data :: fetch_result where
  "box_listing_with_data =
     Response 200 (Some (JObj [(''total_count'', JNum 1),
       (''entries'', JArr [JObj [(''type'', JStr ''file''), (''id'', JStr ''f9''),
                                 (''name'', JStr ''planner-data.json'')]])]))"


definition gdrive_no_folder :: fetch_result where
  "gdrive_no_folder = Response 200 (Some (JObj [(''files'', JArr [])]))"

definition gdrive_folder_made :: fetch_result where
  "gdrive_folder_made = Response 200 (Some (JObj [(''id'', JStr ''G1'')]))"


definition gdrive_empty_listing :: fetch_result where
  "gdrive_empty_listing = Response 200 (Some (JObj [(''files'', JArr [])]))"

section \<open>Vocabulary of the first sync\<close>
















text \<open>
  Folder-creation answers that name the new folder by a falsy identifier, and the answers
  of a OneDrive that holds nothing yet.
\<close>

definition box_folder_made_zero :: fetch_result where
  "box_folder_made_zero = Response 201 (Some (JObj [(''type'', JStr ''folder''), (''id'', JNum 0)]))"

definition gdrive_folder_made_empty :: fetch_result where
  "gdrive_folder_made_empty = Response 200 (Some (JObj [(''id'', JStr [])]))"



section \<open>Properties of the merge\<close>

lemma fold_update_distinct:
  "distinct (map fst t) \<Longrightarrow> distinct (map fst (fold (\<lambda>(k, v) acc. AList.update k v acc) ps t))"
  by (induction ps arbitrary: t) (auto simp: distinct_update)

lemma update_fresh: "k \<notin> fst ` set al \<Longrightarrow> AList.update k v al = al @ [(k, v)]"
  by (induction al) auto

lemma fold_update_fresh:
  "distinct (map fst (acc @ ps)) \<Longrightarrow> fold (\<lambda>(k, v) acc. AList.update k v acc) ps acc = acc @ ps"
proof (induction ps arbitrary: acc)
  case Nil
  then show ?case by simp
next
  case (Cons p ps)
  obtain k v where p: "p = (k, v)" by (cases p)
  from Cons.prems p have fresh: "k \<notin> fst ` set acc" by auto
  from Cons.prems p have d: "distinct (map fst ((acc @ [(k, v)]) @ ps))" by auto
  show ?case using Cons.IH [OF d] by (simp add: p update_fresh [OF fresh])
qed

lemma fold_update_other:
  "k \<notin> fst ` set ps \<Longrightarrow> map_of (fold (\<lambda>(k, v) acc. AList.update k v acc) ps t) k = map_of t k"
  by (induction ps arbitrary: t) (auto simp: update_conv')

lemma fold_update_hit:
  "distinct (map fst ps) \<Longrightarrow> map_of ps k = Some v \<Longrightarrow>
   map_of (fold (\<lambda>(k, v) acc. AList.update k v acc) ps t) k = Some v"
proof (induction ps arbitrary: t)
  case Nil
  then show ?case by simp
next
  case (Cons p ps)
  obtain k' v' where p: "p = (k', v')" by (cases p)
  show ?case
  proof (cases "k' = k")
    case True
    with Cons.prems p have "v' = v" "k \<notin> fst ` set ps" by auto
    then show ?thesis using True p by (simp add: fold_update_other update_conv')
  next
    case False
    with Cons.prems p have "distinct (map fst ps)" "map_of ps k = Some v" by auto
    then show ?thesis using Cons.IH p by simp
  qed
qed

lemma fold_update_keys:
  "fst ` set (fold (\<lambda>(k, v) acc. AList.update k v acc) ps t) = fst ` set t \<union> fst ` set ps"
proof (induction ps arbitrary: t)
  case Nil
  then show ?case by simp
next
  case (Cons p ps)
  obtain k v where p: "p = (k, v)" by (cases p)
  show ?case using Cons.IH [of "AList.update k v t"] by (auto simp: p dom_update)
qed

lemma update_update_present:
  "k \<in> fst ` set m \<Longrightarrow> k' \<noteq> k \<Longrightarrow>
   AList.update k' v' (AList.update k v m) = AList.update k v (AList.update k' v' m)"
  by (induction m) auto

lemma fold_update_absorb:
  "k \<in> fst ` set m \<Longrightarrow> k \<in> fst ` set ps \<Longrightarrow>
   fold (\<lambda>(k, v) acc. AList.update k v acc) ps (AList.update k v m)
   = fold (\<lambda>(k, v) acc. AList.update k v acc) ps m"
proof (induction ps arbitrary: m)
  case Nil
  then show ?case by simp
next
  case (Cons p ps)
  obtain k' v' where p: "p = (k', v')" by (cases p)
  show ?case
  proof (cases "k' = k")
    case True
    then show ?thesis using p by simp
  next
    case False
    with Cons.prems p have in_ps: "k \<in> fst ` set ps" by auto
    from Cons.prems have in_m: "k \<in> fst ` set (AList.update k' v' m)" by (simp add: dom_update)
    show ?thesis
      using Cons.IH [OF in_m in_ps] False Cons.prems(1)
      by (simp add: p update_update_present)
  qed
qed

lemma fold_update_idem:
  "fold (\<lambda>(k, v) acc. AList.update k v acc) ps (fold (\<lambda>(k, v) acc. AList.update k v acc) ps t)
   = fold (\<lambda>(k, v) acc. AList.update k v acc) ps t"
proof (induction ps arbitrary: t)
  case Nil
  then show ?case by simp
next
  case (Cons p ps)
  obtain k v where p: "p = (k, v)" by (cases p)
  let ?f = "fold (\<lambda>(k, v) acc. AList.update k v acc)"
  let ?m = "?f ps (AList.update k v t)"
  have km: "k \<in> fst ` set ?m" by (simp add: fold_update_keys dom_update)
  show ?case
  proof (cases "k \<in> fst ` set ps")
    case True
    have "?f ps (AList.update k v ?m) = ?f ps ?m" by (rule fold_update_absorb [OF km True])
    then show ?thesis using Cons.IH [of "AList.update k v t"] by (simp add: p)
  next
    case False
    have "map_of ?m k = Some v" by (simp add: fold_update_other [OF False] update_conv')
    then have "AList.update k v ?m = ?m" by (rule update_triv)
    then show ?thesis using Cons.IH [of "AList.update k v t"] by (simp add: p)
  qed
qed

lemma spread_into_distinct: "distinct (map fst t) \<Longrightarrow> distinct (map fst (spread_into t src))"
  unfolding spread_into_def by (rule fold_update_distinct)

lemma spread_into_empty_object: "distinct (map fst kvs) \<Longrightarrow> spread_into [] (JObj kvs) = kvs"
  using fold_update_fresh [of "[]" kvs] by (simp add: spread_into_def)

text \<open>
  Claim C7. Merging the remote document into the result of a merge with that same
  remote document changes nothing: for all JSON values \<open>l\<close> and \<open>r\<close>,
  \<open>merge (merge l r) r = merge l r\<close>, where merge is the object spread of syncData.
\<close>

theorem merge_docs_idempotent: "merge_docs (merge_docs l r) r = merge_docs l r"
proof -
  have d: "distinct (map fst (spread_into (spread_into [] l) r))"
    by (intro spread_into_distinct) simp
  have "spread_into [] (merge_docs l r) = spread_into (spread_into [] l) r"
    unfolding merge_docs_def by (rule spread_into_empty_object [OF d])
  then show ?thesis
    by (simp add: merge_docs_def) (simp add: spread_into_def fold_update_idem)
qed


section \<open>Running the steps\<close>

lemma and_then_Inr: "m s = (Inr x, s') \<Longrightarrow> and_then m f s = f x s'"
  by (simp add: and_then_def)

lemma and_then_Inl: "m s = (Inl e, s') \<Longrightarrow> and_then m f s = (Inl e, s')"
  by (simp add: and_then_def)

lemma and_then_InrD:
  "and_then m f s = (Inr y, s2) \<Longrightarrow> \<exists>x s1. m s = (Inr x, s1) \<and> f x s1 = (Inr y, s2)"
  by (auto simp: and_then_def split: sum.splits prod.splits)

lemma fetch_Response:
  "net E (length (requests s)) = Response st b \<Longrightarrow>
   fetch E req s = (Inr (st, b), s\<lparr>requests := requests s @ [req]\<rparr>)"
  by (simp add: fetch_def)

lemma fetch_state: "fetch E req s = (r, s1) \<Longrightarrow> s1 = s\<lparr>requests := requests s @ [req]\<rparr>"
  by (auto simp: fetch_def Let_def split: fetch_result.splits)

subsection \<open>Steps that only talk to the network\<close>

lemma network_only_refl: "network_only s s"
  unfolding network_only_def by (rule exI [of _ "[]"], rule exI [of _ "folderId s"]) simp

lemma network_only_trans: "network_only s s1 \<Longrightarrow> network_only s1 s2 \<Longrightarrow> network_only s s2"
  unfolding network_only_def
proof (elim exE)
  fix r1 i1 r2 i2
  assume a: "s1 = s\<lparr>folderId := i1, requests := requests s @ r1\<rparr>"
    and b: "s2 = s1\<lparr>folderId := i2, requests := requests s1 @ r2\<rparr>"
  have "s2 = s\<lparr>folderId := i2, requests := requests s @ (r1 @ r2)\<rparr>"
    by (simp add: a b)
  then show "\<exists>reqs ident. s2 = s\<lparr>folderId := ident, requests := requests s @ reqs\<rparr>" by blast
qed

lemma network_only_and_then:
  assumes m: "\<And>s r s'. m s = (r, s') \<Longrightarrow> network_only s s'"
    and f: "\<And>x s r s'. f x s = (r, s') \<Longrightarrow> network_only s s'"
    and run: "and_then m f s = (r, s')"
  shows "network_only s s'"
proof (cases "m s")
  case (Pair a sa)
  note ms = m [OF Pair]
  show ?thesis
  proof (cases a)
    case (Inl e)
    with Pair run have "s' = sa" by (simp add: and_then_def)
    with ms show ?thesis by simp
  next
    case (Inr x)
    with Pair run have "f x sa = (r, s')" by (simp add: and_then_def)
    from network_only_trans [OF ms f [OF this]] show ?thesis .
  qed
qed

lemma network_only_fetch: "fetch E req s = (r, s') \<Longrightarrow> network_only s s'"
  unfolding network_only_def
  by (rule exI [of _ "[req]"], rule exI [of _ "folderId s"]) (simp add: fetch_state)

lemma network_only_pure:
  "succeed x s = (r, s') \<Longrightarrow> network_only s s'"
  "throw e s = (r', s') \<Longrightarrow> network_only s s'"
  "lift v s = (r'', s') \<Longrightarrow> network_only s s'"
  "json_of resp s = (r''', s') \<Longrightarrow> network_only s s'"
  by (auto simp: succeed_def throw_def lift_def json_of_def network_only_refl)

lemma network_only_set_folder: "network_only s (s\<lparr>folderId := i\<rparr>)"
  unfolding network_only_def by (rule exI [of _ "[]"], rule exI [of _ i]) simp

lemma network_only_adopt_found:
  assumes "adopt_found_folder nm resp s = (r, s')"
  shows "network_only s s'"
proof (cases "ok resp")
  case False
  with assms show ?thesis by (simp add: adopt_found_folder_def succeed_def network_only_refl)
next
  case True
  show ?thesis
  proof (cases "snd resp")
    case None
    with assms True show ?thesis
      by (simp add: adopt_found_folder_def json_of_def lift_def and_then_def network_only_refl)
  next
    case (Some data)
    with assms True show ?thesis
      by (auto simp: adopt_found_folder_def json_of_def lift_def and_then_def network_only_refl
            network_only_set_folder split: sum.splits option.splits)
  qed
qed

lemma network_only_adopt_created:
  assumes "adopt_created_folder msg resp s = (r, s')"
  shows "network_only s s'"
proof (cases "ok resp")
  case False
  with assms show ?thesis by (simp add: adopt_created_folder_def throw_def network_only_refl)
next
  case True
  show ?thesis
  proof (cases "snd resp")
    case None
    with assms True show ?thesis
      by (simp add: adopt_created_folder_def json_of_def lift_def and_then_def network_only_refl)
  next
    case (Some data)
    with assms True show ?thesis
      by (auto simp: adopt_created_folder_def json_of_def lift_def and_then_def network_only_refl
            network_only_set_folder split: sum.splits option.splits)
  qed
qed

lemma net_opD: "net_op m \<Longrightarrow> m s = (r, s') \<Longrightarrow> network_only s s'"
  by (auto simp: net_op_def)

lemma net_op_and_then: "net_op m \<Longrightarrow> (\<And>x. net_op (f x)) \<Longrightarrow> net_op (and_then m f)"
  unfolding net_op_def by (blast intro: network_only_and_then)

lemma net_op_fetch: "net_op (\<lambda>s. fetch E (req s) s)"
  unfolding net_op_def by (blast intro: network_only_fetch)

lemma net_op_fetch_const: "net_op (fetch E req)"
  unfolding net_op_def by (blast intro: network_only_fetch)

lemma net_op_pure: "net_op (succeed x)" "net_op (throw e)" "net_op (lift v)" "net_op (json_of resp)"
  unfolding net_op_def by (blast intro: network_only_pure)+

lemma net_op_return: "net_op (\<lambda>s. (g s, s))"
  unfolding net_op_def by (auto simp: network_only_refl)

lemma net_op_if: "net_op m \<Longrightarrow> net_op m' \<Longrightarrow> net_op (\<lambda>s. if c s then m s else m' s)"
  unfolding net_op_def by auto

lemma net_op_if_const: "net_op m \<Longrightarrow> net_op m' \<Longrightarrow> net_op (if c then m else m')"
  by simp

lemma net_op_adopt: "net_op (adopt_found_folder nm resp)" "net_op (adopt_created_folder msg resp)"
  unfolding net_op_def by (blast intro: network_only_adopt_found network_only_adopt_created)+

lemma net_op_case_option: "net_op a \<Longrightarrow> (\<And>x. net_op (b x)) \<Longrightarrow> net_op (case v of None \<Rightarrow> a | Some x \<Rightarrow> b x)"
  by (cases v) simp_all

lemma net_op_eta: "net_op m \<Longrightarrow> net_op (\<lambda>s. m s)"
  by simp

lemma net_op_and_then_dep:
  "(\<And>s0. net_op (m s0)) \<Longrightarrow> (\<And>x. net_op (f x)) \<Longrightarrow> net_op (\<lambda>s. and_then (m s) f s)"
  unfolding net_op_def by (blast intro: network_only_and_then)

lemma net_op_case_option': "(\<And>x. net_op (b x)) \<Longrightarrow> net_op a \<Longrightarrow> net_op (case v of Some x \<Rightarrow> b x | None \<Rightarrow> a)"
  by (cases v) simp_all

lemmas net_op_intros =
  net_op_and_then_dep net_op_and_then net_op_if net_op_if_const net_op_return
  net_op_fetch_const net_op_fetch net_op_pure net_op_adopt net_op_case_option

lemma net_op_ensureBoxFolder: "net_op (ensureBoxFolder E)"
  unfolding ensureBoxFolder_def [abs_def] by (intro net_op_intros)

lemma net_op_ensureGDriveFolder: "net_op (ensureGDriveFolder E)"
  unfolding ensureGDriveFolder_def [abs_def] by (intro net_op_intros)

lemma net_op_findBoxFile: "net_op (findBoxFile E name folder)"
  unfolding findBoxFile_def [abs_def] by (intro net_op_intros)

lemma net_op_findGDriveFile: "net_op (findGDriveFile E name folder)"
  unfolding findGDriveFile_def [abs_def] by (intro net_op_intros)

lemmas net_op_parts =
  net_op_ensureBoxFolder net_op_ensureGDriveFolder net_op_findBoxFile net_op_findGDriveFile

lemma net_op_uploadToBox: "net_op (uploadToBox E data name)"
  unfolding uploadToBox_def by (intro net_op_intros net_op_parts)

lemma net_op_downloadFromBox: "net_op (downloadFromBox E name)"
  unfolding downloadFromBox_def by (intro net_op_intros net_op_parts)

lemma net_op_uploadToGDrive: "net_op (uploadToGDrive E data name)"
  unfolding uploadToGDrive_def by (intro net_op_intros net_op_parts)

lemma net_op_downloadFromGDrive: "net_op (downloadFromGDrive E name)"
  unfolding downloadFromGDrive_def by (intro net_op_intros net_op_parts)

lemma net_op_uploadToOneDrive: "net_op (uploadToOneDrive E data name)"
  unfolding uploadToOneDrive_def by (intro net_op_intros)

lemma net_op_downloadFromOneDrive: "net_op (downloadFromOneDrive E name)"
  unfolding downloadFromOneDrive_def by (intro net_op_intros)

lemma net_op_uploadData: "net_op (uploadData E data isSettings)"
  unfolding uploadData_def [abs_def] Let_def
  by (intro net_op_intros net_op_uploadToBox net_op_uploadToOneDrive net_op_uploadToGDrive net_op_eta)

lemma net_op_downloadData: "net_op (downloadData E isSettings)"
  unfolding downloadData_def [abs_def] Let_def
  by (intro net_op_intros net_op_downloadFromBox net_op_downloadFromOneDrive net_op_downloadFromGDrive net_op_eta)

subsection \<open>What the Box functions do\<close>

lemma adopt_found_folder_cases:
  "adopt_found_folder nm resp s = (Inr found, s1) \<Longrightarrow>
   (found = None \<and> s1 = s) \<or> (\<exists>ident. found = Some ident \<and> s1 = s\<lparr>folderId := ident\<rparr>)"
  by (auto simp: adopt_found_folder_def and_then_def json_of_def lift_def succeed_def
           split: if_splits sum.splits option.splits prod.splits)

lemma adopt_created_folder_cases:
  "adopt_created_folder msg resp s = (Inr ident, s1) \<Longrightarrow> s1 = s\<lparr>folderId := ident\<rparr>"
  by (auto simp: adopt_created_folder_def and_then_def json_of_def lift_def throw_def
           split: if_splits sum.splits option.splits prod.splits)

lemma ensureBoxFolder_cached:
  "truthy (folderId s) \<Longrightarrow> ensureBoxFolder E s = (Inr (folderId s), s)"
  by (simp add: ensureBoxFolder_def)

lemma ensureBoxFolder_cases:
  assumes "ensureBoxFolder E s = (Inr ident, s1)"
  shows "(truthy (folderId s) \<and> s1 = s \<and> ident = folderId s)
       \<or> s1 = s\<lparr>requests := requests s @ [box_search_request s], folderId := ident\<rparr>
       \<or> s1 = s\<lparr>requests := requests s @ [box_search_request s,
                  box_create_folder_request E (s\<lparr>requests := requests s @ [box_search_request s]\<rparr>)],
                folderId := ident\<rparr>"
proof (cases "truthy (folderId s)")
  case True
  with assms show ?thesis by (auto simp: ensureBoxFolder_def)
next
  case False
  let ?sa = "s\<lparr>requests := requests s @ [box_search_request s]\<rparr>"
  from assms False have run: "and_then (fetch E (box_search_request s)) (\<lambda>searchResponse.
           and_then (adopt_found_folder ''entries'' searchResponse) (\<lambda>found.
             case found of
               Some ident \<Rightarrow> succeed ident
             | None \<Rightarrow>
                 (\<lambda>s1. and_then (fetch E (box_create_folder_request E s1))
                          (adopt_created_folder ''Failed to create folder in Box'') s1))) s = (Inr ident, s1)"
    by (simp add: ensureBoxFolder_def)
  from and_then_InrD [OF run] obtain resp sa where f: "fetch E (box_search_request s) s = (Inr resp, sa)"
    and run2: "and_then (adopt_found_folder ''entries'' resp) (\<lambda>found.
             case found of
               Some ident \<Rightarrow> succeed ident
             | None \<Rightarrow>
                 (\<lambda>s1. and_then (fetch E (box_create_folder_request E s1))
                          (adopt_created_folder ''Failed to create folder in Box'') s1)) sa = (Inr ident, s1)"
    by blast
  from fetch_state [OF f] have sa: "sa = ?sa" .
  from and_then_InrD [OF run2] obtain found sb where a: "adopt_found_folder ''entries'' resp sa = (Inr found, sb)"
    and rest: "(case found of Some i \<Rightarrow> succeed i
                | None \<Rightarrow> (\<lambda>s1. and_then (fetch E (box_create_folder_request E s1))
                          (adopt_created_folder ''Failed to create folder in Box'') s1)) sb = (Inr ident, s1)"
    by blast
  from adopt_found_folder_cases [OF a] show ?thesis
  proof
    assume n: "found = None \<and> sb = sa"
    with rest have "and_then (fetch E (box_create_folder_request E sa))
                          (adopt_created_folder ''Failed to create folder in Box'') sa = (Inr ident, s1)"
      by simp
    from and_then_InrD [OF this] obtain r2 sc where f2: "fetch E (box_create_folder_request E sa) sa = (Inr r2, sc)"
      and c: "adopt_created_folder ''Failed to create folder in Box'' r2 sc = (Inr ident, s1)"
      by blast
    from fetch_state [OF f2] adopt_created_folder_cases [OF c] sa show ?thesis by simp
  next
    assume "\<exists>i. found = Some i \<and> sb = sa\<lparr>folderId := i\<rparr>"
    with rest sa show ?thesis by (auto simp: succeed_def)
  qed
qed

lemma ensureBoxFolder_again:
  assumes "ensureBoxFolder E s = (Inr ident, s1)" "truthy ident"
  shows "ensureBoxFolder E s1 = (Inr ident, s1) \<and> length (filter is_folder_create (issued s s1)) \<le> 1"
  using ensureBoxFolder_cases [OF assms(1)] assms(2)
  by (elim disjE conjE)
     (simp_all add: ensureBoxFolder_def issued_def is_folder_create_def box_search_request_def)

lemma findBoxFile_not_ok:
  assumes "net E (length (requests s)) = Response st b" "\<not> ok (st, b)"
  shows "findBoxFile E name folder s =
           (Inr (Some JNull), s\<lparr>requests := requests s @ [box_items_request folder s]\<rparr>)"
  using assms by (simp add: findBoxFile_def and_then_def fetch_def succeed_def)


lemma downloadFromBox_absent:
  assumes "ensureBoxFolder E s = (Inr folder, s1)" "findBoxFile E name folder s1 = (Inr fid, s2)"
    "\<not> truthy fid"
  shows "downloadFromBox E name s = (Inr JNull, s2)"
  using assms by (simp add: downloadFromBox_def and_then_def succeed_def)

lemma downloadFromBox_refused:
  assumes "ensureBoxFolder E s = (Inr folder, s1)" "findBoxFile E name folder s1 = (Inr fid, s2)"
    "truthy fid" "net E (length (requests s2)) = Response st b" "\<not> ok (st, b)"
  shows "downloadFromBox E name s =
     (Inl (Error ''Failed to download from Box''),
      s2\<lparr>requests := requests s2 @ [box_content_request fid s2]\<rparr>)"
  using assms by (simp add: downloadFromBox_def and_then_def fetch_def throw_def)

lemma uploadToBox_state:
  assumes "ensureBoxFolder E s = (Inr folder, s1)" "findBoxFile E name folder s1 = (Inr fid, s2)"
  shows "snd (uploadToBox E data name s) =
           s2\<lparr>requests := requests s2 @ [box_upload_request E data name folder fid s2]\<rparr>"
  using assms
  by (auto simp: uploadToBox_def and_then_def fetch_def Let_def throw_def json_of_def lift_def
      split: fetch_result.splits sum.splits option.splits)


subsection \<open>What the Google Drive functions do\<close>


lemma ensureGDriveFolder_cases:
  assumes "ensureGDriveFolder E s = (Inr ident, s1)"
  shows "(truthy (folderId s) \<and> s1 = s \<and> ident = folderId s)
       \<or> s1 = s\<lparr>requests := requests s @ [gdrive_search_request s], folderId := ident\<rparr>
       \<or> s1 = s\<lparr>requests := requests s @ [gdrive_search_request s,
                  gdrive_create_folder_request E (s\<lparr>requests := requests s @ [gdrive_search_request s]\<rparr>)],
                folderId := ident\<rparr>"
proof (cases "truthy (folderId s)")
  case True
  with assms show ?thesis by (auto simp: ensureGDriveFolder_def)
next
  case False
  let ?sa = "s\<lparr>requests := requests s @ [gdrive_search_request s]\<rparr>"
  from assms False have run: "and_then (fetch E (gdrive_search_request s)) (\<lambda>searchResponse.
           and_then (adopt_found_folder ''files'' searchResponse) (\<lambda>found.
             case found of
               Some ident \<Rightarrow> succeed ident
             | None \<Rightarrow>
                 (\<lambda>s1. and_then (fetch E (gdrive_create_folder_request E s1))
                          (adopt_created_folder ''Failed to create folder in Google Drive'') s1))) s = (Inr ident, s1)"
    by (simp add: ensureGDriveFolder_def)
  from and_then_InrD [OF run] obtain resp sa where f: "fetch E (gdrive_search_request s) s = (Inr resp, sa)"
    and run2: "and_then (adopt_found_folder ''files'' resp) (\<lambda>found.
             case found of
               Some ident \<Rightarrow> succeed ident
             | None \<Rightarrow>
                 (\<lambda>s1. and_then (fetch E (gdrive_create_folder_request E s1))
                          (adopt_created_folder ''Failed to create folder in Google Drive'') s1)) sa = (Inr ident, s1)"
    by blast
  from fetch_state [OF f] have sa: "sa = ?sa" .
  from and_then_InrD [OF run2] obtain found sb where a: "adopt_found_folder ''files'' resp sa = (Inr found, sb)"
    and rest: "(case found of Some i \<Rightarrow> succeed i
                | None \<Rightarrow> (\<lambda>s1. and_then (fetch E (gdrive_create_folder_request E s1))
                          (adopt_created_folder ''Failed to create folder in Google Drive'') s1)) sb = (Inr ident, s1)"
    by blast
  from adopt_found_folder_cases [OF a] show ?thesis
  proof
    assume n: "found = None \<and> sb = sa"
    with rest have "and_then (fetch E (gdrive_create_folder_request E sa))
                          (adopt_created_folder ''Failed to create folder in Google Drive'') sa = (Inr ident, s1)"
      by simp
    from and_then_InrD [OF this] obtain r2 sc where f2: "fetch E (gdrive_create_folder_request E sa) sa = (Inr r2, sc)"
      and c: "adopt_created_folder ''Failed to create folder in Google Drive'' r2 sc = (Inr ident, s1)"
      by blast
    from fetch_state [OF f2] adopt_created_folder_cases [OF c] sa show ?thesis by simp
  next
    assume "\<exists>i. found = Some i \<and> sb = sa\<lparr>folderId := i\<rparr>"
    with rest sa show ?thesis by (auto simp: succeed_def)
  qed
qed

lemma ensureGDriveFolder_again:
  assumes "ensureGDriveFolder E s = (Inr ident, s1)" "truthy ident"
  shows "ensureGDriveFolder E s1 = (Inr ident, s1) \<and> length (filter is_folder_create (issued s s1)) \<le> 1"
  using ensureGDriveFolder_cases [OF assms(1)] assms(2)
  by (elim disjE conjE)
     (simp_all add: ensureGDriveFolder_def issued_def is_folder_create_def gdrive_search_request_def)

lemma findGDriveFile_not_ok:
  assumes "net E (length (requests s)) = Response st b" "\<not> ok (st, b)"
  shows "findGDriveFile E name folder s =
           (Inr (Some JNull), s\<lparr>requests := requests s @ [gdrive_files_request name folder s]\<rparr>)"
  using assms by (simp add: findGDriveFile_def and_then_def fetch_def succeed_def)


lemma downloadFromGDrive_absent:
  assumes "ensureGDriveFolder E s = (Inr folder, s1)" "findGDriveFile E name folder s1 = (Inr fid, s2)"
    "\<not> truthy fid"
  shows "downloadFromGDrive E name s = (Inr JNull, s2)"
  using assms by (simp add: downloadFromGDrive_def and_then_def succeed_def)

lemma downloadFromGDrive_refused:
  assumes "ensureGDriveFolder E s = (Inr folder, s1)" "findGDriveFile E name folder s1 = (Inr fid, s2)"
    "truthy fid" "net E (length (requests s2)) = Response st b" "\<not> ok (st, b)"
  shows "downloadFromGDrive E name s =
     (Inl (Error ''Failed to download from Google Drive''),
      s2\<lparr>requests := requests s2 @ [gdrive_content_request fid s2]\<rparr>)"
  using assms by (simp add: downloadFromGDrive_def and_then_def fetch_def throw_def)

lemma uploadToGDrive_state:
  assumes "ensureGDriveFolder E s = (Inr folder, s1)" "findGDriveFile E name folder s1 = (Inr fid, s2)"
  shows "snd (uploadToGDrive E data name s) =
           s2\<lparr>requests := requests s2 @ [gdrive_upload_request E data name folder fid s2]\<rparr>"
  using assms
  by (auto simp: uploadToGDrive_def and_then_def fetch_def Let_def throw_def json_of_def lift_def
      split: fetch_result.splits sum.splits option.splits)


section \<open>The authorization callback\<close>

lemma handleAuthCallback_token:
  assumes "params_get (URLSearchParams (drop 1 (hash s))) ''access_token'' = Some t" "t \<noteq> []"
    and "storage_accepts E (localStorage s) (token_key (provider s)) t"
  shows "handleAuthCallback E s =
     (Inr True, s\<lparr>accessToken := Some t,
                  localStorage := (localStorage s)(token_key (provider s) \<mapsto> t),
                  search := [], hash := []\<rparr>)"
  using assms by (simp add: handleAuthCallback_def and_then_def setItem_def)

lemma handleAuthCallback_no_token:
  assumes "params_get (URLSearchParams (drop 1 (hash s))) ''access_token'' = None
         \<or> params_get (URLSearchParams (drop 1 (hash s))) ''access_token'' = Some []"
  shows "handleAuthCallback E s = (Inr False, s)"
  using assms by (auto simp: handleAuthCallback_def)

lemma params_token_example:
  "params_get (URLSearchParams ''access_token=XYZ&expires_in=3600'') ''access_token'' = Some ''XYZ''"
  by code_simp

lemma params_error_example:
  "params_get (URLSearchParams ''error=access_denied'') ''access_token'' = None"
  by code_simp

lemma pages_simps:
  "hash callback_page = ''#access_token=XYZ&expires_in=3600''"
  "hash error_page = ''#error=access_denied''"
  "hash plain_page = []"
  "provider callback_page = Some ''box''"
  "localStorage callback_page = (\<lambda>k. None)"
  by (simp_all add: callback_page_def error_page_def plain_page_def initialize_def constructor_def
        Let_def)

text \<open>
  Claim C8, as the code has it. Given the callback fragment
  \<^verbatim>\<open>access_token=XYZ&expires_in=3600\<close> and a localStorage that accepts the write,
  handleAuthCallback returns true, keeps \<^verbatim>\<open>XYZ\<close> as the instance's token, stores
  \<^verbatim>\<open>XYZ\<close> under the provider's token key, and leaves a URL without query and
  fragment. Nothing else changes: \<^verbatim>\<open>expires_in\<close> is not read and no expiry instant
  is stored.
\<close>

theorem handleAuthCallback_stores_token_only:
  assumes "hash s = ''#access_token=XYZ&expires_in=3600''"
    and "storage_accepts E (localStorage s) (token_key (provider s)) ''XYZ''"
  shows "handleAuthCallback E s =
     (Inr True, s\<lparr>accessToken := Some ''XYZ'',
                  localStorage := (localStorage s)(token_key (provider s) \<mapsto> ''XYZ''),
                  search := [], hash := []\<rparr>)"
  using assms by (intro handleAuthCallback_token) (simp_all add: params_token_example)

theorem handleAuthCallback_stores_token_only_witness:
  "hash callback_page = ''#access_token=XYZ&expires_in=3600''
   \<and> storage_accepts (browser [] []) (localStorage callback_page) (token_key (provider callback_page)) ''XYZ''
   \<and> handleAuthCallback (browser [] []) callback_page =
     (Inr True, callback_page\<lparr>accessToken := Some ''XYZ'',
                  localStorage := (localStorage callback_page)(''box_access_token'' \<mapsto> ''XYZ''),
                  search := [], hash := []\<rparr>)"
proof -
  have h: "hash callback_page = ''#access_token=XYZ&expires_in=3600''"
    by (rule pages_simps)
  have a: "storage_accepts (browser [] []) (localStorage callback_page)
             (token_key (provider callback_page)) ''XYZ''"
    by (simp add: browser_def)
  have k: "token_key (provider callback_page) = ''box_access_token''"
    by (simp add: pages_simps token_key_def)
  show ?thesis using handleAuthCallback_stores_token_only [OF h a] h a by (simp add: k)
qed

text \<open>
  Claim C8 as stated fails: after the callback with \<^verbatim>\<open>expires_in=3600\<close> the only
  item in localStorage is the token itself, so no expiry instant has been stored.
\<close>

theorem handleAuthCallback_no_expiry_stored:
  "dom (localStorage (snd (handleAuthCallback (browser [] []) callback_page))) = {''box_access_token''}
   \<and> localStorage (snd (handleAuthCallback (browser [] []) callback_page)) ''box_access_token''
       = Some ''XYZ''"
proof -
  have "handleAuthCallback (browser [] []) callback_page =
     (Inr True, callback_page\<lparr>accessToken := Some ''XYZ'',
        localStorage := (localStorage callback_page)(token_key (provider callback_page) \<mapsto> ''XYZ''),
        search := [], hash := []\<rparr>)"
    by (rule handleAuthCallback_token)
       (simp_all add: pages_simps params_token_example browser_def)
  then show ?thesis by (simp add: pages_simps token_key_def)
qed

text \<open>
  Claim C9, as the code has it. Whenever the fragment carries no non-empty
  \<^verbatim>\<open>access_token\<close> (it is missing, malformed, or carries an \<^verbatim>\<open>error\<close> parameter
  instead), handleAuthCallback returns false and changes nothing; an \<^verbatim>\<open>error\<close>
  parameter is not looked at.
\<close>

theorem handleAuthCallback_without_token:
  assumes "params_get (URLSearchParams (drop 1 (hash s))) ''access_token'' = None
         \<or> params_get (URLSearchParams (drop 1 (hash s))) ''access_token'' = Some []"
  shows "handleAuthCallback E s = (Inr False, s)"
  using assms by (rule handleAuthCallback_no_token)

theorem handleAuthCallback_without_token_witness:
  "params_get (URLSearchParams (drop 1 (hash error_page))) ''error'' = Some ''access_denied''
   \<and> params_get (URLSearchParams (drop 1 (hash error_page))) ''access_token'' = None
   \<and> handleAuthCallback (browser [] []) error_page = (Inr False, error_page)"
proof -
  have e: "params_get (URLSearchParams (drop 1 (hash error_page))) ''error'' = Some ''access_denied''"
    unfolding pages_simps by code_simp
  have n: "params_get (URLSearchParams (drop 1 (hash error_page))) ''access_token'' = None"
    by (simp add: pages_simps params_error_example)
  show ?thesis using handleAuthCallback_without_token [of error_page "browser [] []"] e n by simp
qed

text \<open>
  Claim C9 as stated fails: a redirect with \<^verbatim>\<open>error=access_denied\<close> and a page load
  without any fragment give the same outcome, false, and the first leaves no trace.
\<close>

theorem handleAuthCallback_error_not_distinguished:
  "fst (handleAuthCallback (browser [] []) error_page) = Inr False
   \<and> fst (handleAuthCallback (browser [] []) plain_page) = Inr False
   \<and> snd (handleAuthCallback (browser [] []) error_page) = error_page"
proof -
  have "handleAuthCallback (browser [] []) error_page = (Inr False, error_page)"
    by (rule handleAuthCallback_no_token) (simp add: pages_simps params_error_example)
  moreover have "handleAuthCallback (browser [] []) plain_page = (Inr False, plain_page)"
    by (rule handleAuthCallback_no_token)
       (simp add: pages_simps URLSearchParams_def params_get_def)
  ultimately show ?thesis by simp
qed


section \<open>Folder resolution is memoized\<close>

lemma fresh_pages:
  "folderId box_page = Some JNull" "requests box_page = []" "provider box_page = Some ''box''"
  "accessToken box_page = Some ''tok''"
  "localStorage box_page = [''box_access_token'' \<mapsto> ''tok'']"
  "folderId gdrive_page = Some JNull" "requests gdrive_page = []"
  "provider gdrive_page = Some ''gdrive''" "accessToken gdrive_page = Some ''tok''"
  "localStorage gdrive_page = [''gdrive_access_token'' \<mapsto> ''tok'']"
  "folderId onedrive_page = Some JNull" "requests onedrive_page = []"
  "provider onedrive_page = Some ''onedrive''" "accessToken onedrive_page = Some ''tok''"
  "localStorage onedrive_page = [''onedrive_access_token'' \<mapsto> ''tok'']"
  by (simp_all add: box_page_def gdrive_page_def onedrive_page_def initialize_def constructor_def
        Let_def token_key_def)

text \<open>
  The folder identifier is cached as the service gives it and tested for truthiness
  only. A Box that names the new folder \<^verbatim>\<open>0\<close>, or a Google Drive that names it by the
  empty string, has the first call succeed and cache that identifier, and the second
  call search and create again: two folder-creation calls.
\<close>

theorem ensureFolder_falsy_id_creates_twice:
  "fst (ensureBoxFolder (browser [box_no_folder, box_folder_made_zero, box_no_folder, box_folder_made_zero] [])
          box_page) = Inr (Some (JNum 0))
   \<and> folderId (snd (ensureBoxFolder
          (browser [box_no_folder, box_folder_made_zero, box_no_folder, box_folder_made_zero] [])
          box_page)) = Some (JNum 0)
   \<and> length (filter is_folder_create (issued box_page
        (snd (ensureBoxFolder
                (browser [box_no_folder, box_folder_made_zero, box_no_folder, box_folder_made_zero] [])
                (snd (ensureBoxFolder
                        (browser [box_no_folder, box_folder_made_zero, box_no_folder, box_folder_made_zero] [])
                        box_page)))))) = 2
   \<and> fst (ensureGDriveFolder
          (browser [gdrive_no_folder, gdrive_folder_made_empty, gdrive_no_folder, gdrive_folder_made_empty] [])
          gdrive_page) = Inr (Some (JStr []))
   \<and> folderId (snd (ensureGDriveFolder
          (browser [gdrive_no_folder, gdrive_folder_made_empty, gdrive_no_folder, gdrive_folder_made_empty] [])
          gdrive_page)) = Some (JStr [])
   \<and> length (filter is_folder_create (issued gdrive_page
        (snd (ensureGDriveFolder
                (browser [gdrive_no_folder, gdrive_folder_made_empty, gdrive_no_folder, gdrive_folder_made_empty] [])
                (snd (ensureGDriveFolder
                        (browser [gdrive_no_folder, gdrive_folder_made_empty, gdrive_no_folder, gdrive_folder_made_empty] [])
                        gdrive_page)))))) = 2"
  by (intro conjI; code_simp)

text \<open>
  Claim C4, as the code has it. On Box and on Google Drive, once a call of ensureFolder
  has succeeded and cached a truthy folder identifier (\<^verbatim>\<open>if (this.folderId)\<close> asks
  no more than that), the next call on the same instance returns that identifier and
  leaves the instance as it is, so it issues no request at all; over both calls at most
  one folder-creation request is issued. A falsy identifier is cached too, but the next
  call does not take it for one.
\<close>

theorem ensureFolder_memoized:
  "(ensureBoxFolder E s = (Inr ident, s1) \<and> truthy ident \<longrightarrow>
      ensureBoxFolder E s1 = (Inr ident, s1)
      \<and> length (filter is_folder_create (issued s s1)) \<le> 1)
   \<and> (ensureGDriveFolder E s = (Inr ident, s1) \<and> truthy ident \<longrightarrow>
      ensureGDriveFolder E s1 = (Inr ident, s1)
      \<and> length (filter is_folder_create (issued s s1)) \<le> 1)"
  using ensureBoxFolder_again [of E s ident s1] ensureGDriveFolder_again [of E s ident s1]
  by blast

lemma collapse_run: "fst (m s) = r \<Longrightarrow> m s = (r, snd (m s))"
  by (cases "m s") simp

theorem ensureFolder_memoized_witness:
  "ensureBoxFolder (browser [box_no_folder, box_folder_made] []) box_page
     = (Inr (Some (JStr ''F1'')), snd (ensureBoxFolder (browser [box_no_folder, box_folder_made] []) box_page))
   \<and> truthy (Some (JStr ''F1''))
   \<and> ensureBoxFolder (browser [box_no_folder, box_folder_made] [])
        (snd (ensureBoxFolder (browser [box_no_folder, box_folder_made] []) box_page))
     = (Inr (Some (JStr ''F1'')), snd (ensureBoxFolder (browser [box_no_folder, box_folder_made] []) box_page))
   \<and> length (filter is_folder_create
        (issued box_page (snd (ensureBoxFolder (browser [box_no_folder, box_folder_made] []) box_page)))) = 1
   \<and> ensureGDriveFolder (browser [gdrive_no_folder, gdrive_folder_made] []) gdrive_page
     = (Inr (Some (JStr ''G1'')), snd (ensureGDriveFolder (browser [gdrive_no_folder, gdrive_folder_made] []) gdrive_page))
   \<and> ensureGDriveFolder (browser [gdrive_no_folder, gdrive_folder_made] [])
        (snd (ensureGDriveFolder (browser [gdrive_no_folder, gdrive_folder_made] []) gdrive_page))
     = (Inr (Some (JStr ''G1'')), snd (ensureGDriveFolder (browser [gdrive_no_folder, gdrive_folder_made] []) gdrive_page))"
proof -
  let ?E = "browser [box_no_folder, box_folder_made] []"
  let ?G = "browser [gdrive_no_folder, gdrive_folder_made] []"
  have "fst (ensureBoxFolder ?E box_page) = Inr (Some (JStr ''F1''))" by code_simp
  then have b: "ensureBoxFolder ?E box_page = (Inr (Some (JStr ''F1'')), snd (ensureBoxFolder ?E box_page))"
    by (rule collapse_run)
  have "fst (ensureGDriveFolder ?G gdrive_page) = Inr (Some (JStr ''G1''))" by code_simp
  then have g: "ensureGDriveFolder ?G gdrive_page = (Inr (Some (JStr ''G1'')), snd (ensureGDriveFolder ?G gdrive_page))"
    by (rule collapse_run)
  have n: "length (filter is_folder_create (issued box_page (snd (ensureBoxFolder ?E box_page)))) = 1"
    by code_simp
  have t: "truthy (Some (JStr ''F1''))" "truthy (Some (JStr ''G1''))" by simp_all
  from ensureFolder_memoized [of ?E box_page "Some (JStr ''F1'')" "snd (ensureBoxFolder ?E box_page)"] b t
  have b2: "ensureBoxFolder ?E (snd (ensureBoxFolder ?E box_page))
            = (Inr (Some (JStr ''F1'')), snd (ensureBoxFolder ?E box_page))" by blast
  from ensureFolder_memoized [of ?G gdrive_page "Some (JStr ''G1'')" "snd (ensureGDriveFolder ?G gdrive_page)"] g t
  have g2: "ensureGDriveFolder ?G (snd (ensureGDriveFolder ?G gdrive_page))
            = (Inr (Some (JStr ''G1'')), snd (ensureGDriveFolder ?G gdrive_page))" by blast
  from b t(1) b2 n g g2 show ?thesis by blast
qed


section \<open>Lookup failures and missing files\<close>

lemma upload_request_auth:
  "box_upload_request E data name folder fid (s\<lparr>requests := rs\<rparr>)
     = box_upload_request E data name folder fid s"
  "gdrive_upload_request E data name folder fid (s\<lparr>requests := rs\<rparr>)
     = gdrive_upload_request E data name folder fid s"
  by (simp_all add: box_upload_request_def gdrive_upload_request_def authorization_def)

text \<open>
  Claim C10. When the file-lookup request is answered with any status that is not ok
  (500 and 401 included), findBoxFile and findGDriveFile return null and throw
  nothing. After a resolved folder, download then returns null, and upload goes on to
  send its content to the create address (Box: POST to \<^verbatim>\<open>files/content\<close>; Google
  Drive: POST to \<^verbatim>\<open>files?uploadType=multipart\<close>), not to the update address.
\<close>

theorem lookup_failure_reads_as_absent:
  assumes "net E (length (requests s1)) = Response st b" and "\<not> ok (st, b)"
  shows "findBoxFile E name folder s1
           = (Inr (Some JNull), s1\<lparr>requests := requests s1 @ [box_items_request folder s1]\<rparr>)
       \<and> findGDriveFile E name folder s1
           = (Inr (Some JNull), s1\<lparr>requests := requests s1 @ [gdrive_files_request name folder s1]\<rparr>)
       \<and> (ensureBoxFolder E s = (Inr folder, s1) \<longrightarrow>
            downloadFromBox E name s
              = (Inr JNull, s1\<lparr>requests := requests s1 @ [box_items_request folder s1]\<rparr>)
            \<and> issued s1 (snd (uploadToBox E data name s))
              = [box_items_request folder s1, box_upload_request E data name folder (Some JNull) s1]
            \<and> req_method (box_upload_request E data name folder (Some JNull) s1) = ''POST''
            \<and> req_url (box_upload_request E data name folder (Some JNull) s1)
              = ''https://upload.box.com/api/2.0/files/content'')
       \<and> (ensureGDriveFolder E s = (Inr folder, s1) \<longrightarrow>
            downloadFromGDrive E name s
              = (Inr JNull, s1\<lparr>requests := requests s1 @ [gdrive_files_request name folder s1]\<rparr>)
            \<and> issued s1 (snd (uploadToGDrive E data name s))
              = [gdrive_files_request name folder s1,
                 gdrive_upload_request E data name folder (Some JNull) s1]
            \<and> req_method (gdrive_upload_request E data name folder (Some JNull) s1) = ''POST''
            \<and> req_url (gdrive_upload_request E data name folder (Some JNull) s1)
              = ''https://www.googleapis.com/upload/drive/v3/files?uploadType=multipart'')"
proof -
  note fb = findBoxFile_not_ok [OF assms, of name folder]
  note fg = findGDriveFile_not_ok [OF assms, of name folder]
  have box: "downloadFromBox E name s
              = (Inr JNull, s1\<lparr>requests := requests s1 @ [box_items_request folder s1]\<rparr>)
            \<and> issued s1 (snd (uploadToBox E data name s))
              = [box_items_request folder s1, box_upload_request E data name folder (Some JNull) s1]"
    if e: "ensureBoxFolder E s = (Inr folder, s1)"
    using downloadFromBox_absent [OF e fb] uploadToBox_state [OF e fb, of data]
    by (simp add: issued_def upload_request_auth)
  have gd: "downloadFromGDrive E name s
              = (Inr JNull, s1\<lparr>requests := requests s1 @ [gdrive_files_request name folder s1]\<rparr>)
            \<and> issued s1 (snd (uploadToGDrive E data name s))
              = [gdrive_files_request name folder s1,
                 gdrive_upload_request E data name folder (Some JNull) s1]"
    if e: "ensureGDriveFolder E s = (Inr folder, s1)"
    using downloadFromGDrive_absent [OF e fg] uploadToGDrive_state [OF e fg, of data]
    by (simp add: issued_def upload_request_auth)
  have urls: "req_method (box_upload_request E data name folder (Some JNull) s1) = ''POST''"
    "req_url (box_upload_request E data name folder (Some JNull) s1)
       = ''https://upload.box.com/api/2.0/files/content''"
    "req_method (gdrive_upload_request E data name folder (Some JNull) s1) = ''POST''"
    "req_url (gdrive_upload_request E data name folder (Some JNull) s1)
       = ''https://www.googleapis.com/upload/drive/v3/files?uploadType=multipart''"
    by (simp_all add: box_upload_request_def box_upload_url_def gdrive_upload_request_def)
  from fb fg box gd urls show ?thesis by blast
qed

theorem lookup_failure_reads_as_absent_witness:
  "net (browser [Response 500 None, Response 201 (Some (JObj []))] []) (length (requests box_cached_page))
     = Response 500 None
   \<and> \<not> ok (500, None)
   \<and> ensureBoxFolder (browser [Response 500 None, Response 201 (Some (JObj []))] []) box_cached_page
       = (Inr (Some (JStr ''F1'')), box_cached_page)
   \<and> fst (findBoxFile (browser [Response 500 None, Response 201 (Some (JObj []))] []) fileName
            (Some (JStr ''F1'')) box_cached_page) = Inr (Some JNull)
   \<and> fst (downloadFromBox (browser [Response 500 None, Response 201 (Some (JObj []))] []) fileName
            box_cached_page) = Inr JNull
   \<and> map req_url (issued box_cached_page
         (snd (uploadToBox (browser [Response 500 None, Response 201 (Some (JObj []))] [])
                 (JObj []) fileName box_cached_page)))
       = [''https://api.box.com/2.0/folders/F1/items?fields=id,name&limit=1000'',
          ''https://upload.box.com/api/2.0/files/content'']"
proof -
  let ?E = "browser [Response 500 None, Response 201 (Some (JObj []))] []"
  have n: "net ?E (length (requests box_cached_page)) = Response 500 None"
    by (simp add: box_cached_page_def fresh_pages browser_def scripted_def)
  have k: "\<not> ok (500, None)" by (simp add: ok_def)
  have e: "ensureBoxFolder ?E box_cached_page = (Inr (Some (JStr ''F1'')), box_cached_page)"
    using ensureBoxFolder_cached [of box_cached_page ?E] by (simp add: box_cached_page_def)
  have u: "req_url (box_items_request (Some (JStr ''F1'')) box_cached_page)
             = ''https://api.box.com/2.0/folders/F1/items?fields=id,name&limit=1000''"
    by (simp add: box_items_request_def template_def)
  from lookup_failure_reads_as_absent [OF n k, of fileName "Some (JStr ''F1'')" box_cached_page "JObj []"] e n k u
  show ?thesis by simp
qed


theorem lookup_failure_reads_as_absent_gdrive_example:
  "fst (downloadFromGDrive (browser [Response 401 None, Response 200 (Some (JObj []))] []) fileName
            gdrive_cached_page) = Inr JNull
   \<and> map req_method (issued gdrive_cached_page
         (snd (uploadToGDrive (browser [Response 401 None, Response 200 (Some (JObj []))] [])
                 (JObj []) fileName gdrive_cached_page))) = [''GET'', ''POST'']"
  by code_simp

section \<open>Download of a file that is not there\<close>




section \<open>Whole sync cycles\<close>

lemma read_local_state: "read_local E k s = (r, s') \<Longrightarrow> s' = s"
  by (auto simp: read_local_def Let_def split: option.splits)

lemma read_local_frame:
  "localStorage s' = localStorage s \<Longrightarrow> read_local E k s' = (fst (read_local E k s), s')"
  by (auto simp: read_local_def Let_def split: option.splits)

lemma network_only_localStorage: "network_only s s' \<Longrightarrow> localStorage s' = localStorage s"
  by (auto simp: network_only_def)

lemma downloadData_localStorage:
  "downloadData E b s = (r, s') \<Longrightarrow> localStorage s' = localStorage s"
  using net_op_downloadData [of E b] by (auto dest: net_opD network_only_localStorage)

lemma uploadData_localStorage:
  "uploadData E d b s = (r, s') \<Longrightarrow> localStorage s' = localStorage s"
  using net_op_uploadData [of E d b] by (auto dest: net_opD network_only_localStorage)

lemma setItem_accepted:
  "storage_accepts E (localStorage s) k v \<Longrightarrow>
   setItem E k v s = (Inr (), s\<lparr>localStorage := (localStorage s)(k \<mapsto> v)\<rparr>)"
  by (simp add: setItem_def)

lemma setItem_refused:
  "\<not> storage_accepts E (localStorage s) k v \<Longrightarrow> setItem E k v s = (Inl QuotaExceeded, s)"
  by (simp add: setItem_def)

lemma keys_differ: "data_key \<noteq> settings_key"
  by (simp add: data_key_def settings_key_def)

text \<open>
  Claim C5. syncData never throws: it returns one result. Whichever step fails first
  (a download, reading a local document, a write to localStorage, an upload), the
  result is the failure with that error and the state is the one the failing step left,
  so no later step has run. Writes to localStorage done before the failure stay: after a
  failed upload both merged values are in localStorage, and after a refused second
  write the first merged value is.
\<close>

theorem syncData_failure_aborts:
  assumes "downloadData E False s = (r1, s1)"
    and "downloadData E True s1 = (r2, s2)"
    and "read_local E data_key s2 = (r3, s2)"
    and "read_local E settings_key s2 = (r4, s2)"
    and "s3 = s2\<lparr>localStorage := (localStorage s2)(data_key \<mapsto> JSON_stringify E (merge_docs ld cd))\<rparr>"
    and "s4 = s3\<lparr>localStorage := (localStorage s3)(settings_key \<mapsto> JSON_stringify E (merge_docs ls cs))\<rparr>"
    and "uploadData E (merge_docs ld cd) False s4 = (r5, s5)"
    and "uploadData E (merge_docs ls cs) True s5 = (r6, s6)"
  shows "(r1 = Inl e \<longrightarrow> syncData E s = (Failure e, s1))
    \<and> (r1 = Inr cd \<and> r2 = Inl e \<longrightarrow> syncData E s = (Failure e, s2))
    \<and> (r1 = Inr cd \<and> r2 = Inr cs \<and> r3 = Inl e \<longrightarrow> syncData E s = (Failure e, s2))
    \<and> (r1 = Inr cd \<and> r2 = Inr cs \<and> r3 = Inr ld \<and> r4 = Inl e \<longrightarrow> syncData E s = (Failure e, s2))
    \<and> (r1 = Inr cd \<and> r2 = Inr cs \<and> r3 = Inr ld \<and> r4 = Inr ls
        \<and> \<not> storage_accepts E (localStorage s2) data_key (JSON_stringify E (merge_docs ld cd)) \<longrightarrow>
          syncData E s = (Failure QuotaExceeded, s2))
    \<and> (r1 = Inr cd \<and> r2 = Inr cs \<and> r3 = Inr ld \<and> r4 = Inr ls
        \<and> storage_accepts E (localStorage s2) data_key (JSON_stringify E (merge_docs ld cd))
        \<and> \<not> storage_accepts E (localStorage s3) settings_key (JSON_stringify E (merge_docs ls cs)) \<longrightarrow>
          syncData E s = (Failure QuotaExceeded, s3)
          \<and> localStorage s3 data_key = Some (JSON_stringify E (merge_docs ld cd)))
    \<and> (r1 = Inr cd \<and> r2 = Inr cs \<and> r3 = Inr ld \<and> r4 = Inr ls
        \<and> storage_accepts E (localStorage s2) data_key (JSON_stringify E (merge_docs ld cd))
        \<and> storage_accepts E (localStorage s3) settings_key (JSON_stringify E (merge_docs ls cs))
        \<and> r5 = Inl e \<longrightarrow>
          syncData E s = (Failure e, s5)
          \<and> localStorage s5 data_key = Some (JSON_stringify E (merge_docs ld cd))
          \<and> localStorage s5 settings_key = Some (JSON_stringify E (merge_docs ls cs)))
    \<and> (r1 = Inr cd \<and> r2 = Inr cs \<and> r3 = Inr ld \<and> r4 = Inr ls
        \<and> storage_accepts E (localStorage s2) data_key (JSON_stringify E (merge_docs ld cd))
        \<and> storage_accepts E (localStorage s3) settings_key (JSON_stringify E (merge_docs ls cs))
        \<and> r5 = Inr x \<and> r6 = Inl e \<longrightarrow>
          syncData E s = (Failure e, s6)
          \<and> localStorage s6 data_key = Some (JSON_stringify E (merge_docs ld cd))
          \<and> localStorage s6 settings_key = Some (JSON_stringify E (merge_docs ls cs)))"
proof -
  have l5: "localStorage s5 = localStorage s4" using assms(7) by (rule uploadData_localStorage)
  have l6: "localStorage s6 = localStorage s5" using assms(8) by (rule uploadData_localStorage)
  have w1: "setItem E data_key (JSON_stringify E (merge_docs ld cd)) s2 = (Inr (), s3)"
    if "storage_accepts E (localStorage s2) data_key (JSON_stringify E (merge_docs ld cd))"
    using that assms(5) by (simp add: setItem_accepted)
  have w2: "setItem E settings_key (JSON_stringify E (merge_docs ls cs)) s3 = (Inr (), s4)"
    if "storage_accepts E (localStorage s3) settings_key (JSON_stringify E (merge_docs ls cs))"
    using that assms(6) by (simp add: setItem_accepted)
  have k3: "localStorage s3 data_key = Some (JSON_stringify E (merge_docs ld cd))"
    using assms(5) by simp
  have k4: "localStorage s4 data_key = Some (JSON_stringify E (merge_docs ld cd))"
    "localStorage s4 settings_key = Some (JSON_stringify E (merge_docs ls cs))"
    using assms(5,6) keys_differ by simp_all
  show ?thesis
    using assms(1-4,7,8) w1 w2 k3 k4 l5 l6
    by (auto simp: syncData_def sync_steps_def and_then_def Let_def setItem_refused succeed_def)
qed


theorem syncData_failure_aborts_witness:
  "fst (syncData (browser [Response 404 None, Response 404 None, Response 500 None] [JObj [], local_doc])
          (with_local_doc onedrive_page)) = Failure (Error ''Failed to upload to OneDrive'')
   \<and> localStorage (snd (syncData (browser [Response 404 None, Response 404 None, Response 500 None] [JObj [], local_doc])
          (with_local_doc onedrive_page))) data_key = Some (show_json local_doc)
   \<and> localStorage (snd (syncData (browser [Response 404 None, Response 404 None, Response 500 None] [JObj [], local_doc])
          (with_local_doc onedrive_page))) settings_key = Some ''{}''
   \<and> map req_method (requests (snd (syncData (browser [Response 404 None, Response 404 None, Response 500 None] [JObj [], local_doc])
          (with_local_doc onedrive_page)))) = [''GET'', ''GET'', ''PUT'']"
proof -
  let ?E = "browser [Response 404 None, Response 404 None, Response 500 None] [JObj [], local_doc]"
  let ?s = "with_local_doc onedrive_page"
  let ?s1 = "snd (downloadData ?E False ?s)"
  let ?s2 = "snd (downloadData ?E True ?s1)"
  let ?m = "merge_docs local_doc JNull"
  let ?ms = "merge_docs (JObj []) JNull"
  let ?s3 = "?s2\<lparr>localStorage := (localStorage ?s2)(data_key \<mapsto> JSON_stringify ?E ?m)\<rparr>"
  let ?s4 = "?s3\<lparr>localStorage := (localStorage ?s3)(settings_key \<mapsto> JSON_stringify ?E ?ms)\<rparr>"
  let ?s5 = "snd (uploadData ?E ?m False ?s4)"
  let ?s6 = "snd (uploadData ?E ?ms True ?s5)"
  have d1: "downloadData ?E False ?s = (Inr JNull, ?s1)"
    by (rule collapse_run) code_simp
  have d2: "downloadData ?E True ?s1 = (Inr JNull, ?s2)"
    by (rule collapse_run) code_simp
  have "fst (read_local ?E data_key ?s2) = Inr local_doc" by code_simp
  then have l1: "read_local ?E data_key ?s2 = (Inr local_doc, ?s2)"
    by (metis prod.collapse read_local_state)
  have "fst (read_local ?E settings_key ?s2) = Inr (JObj [])" by code_simp
  then have l2: "read_local ?E settings_key ?s2 = (Inr (JObj []), ?s2)"
    by (metis prod.collapse read_local_state)
  have u1: "uploadData ?E ?m False ?s4 = (Inl (Error ''Failed to upload to OneDrive''), ?s5)"
    by (rule collapse_run) code_simp
  have u2: "uploadData ?E ?ms True ?s5 = (fst (uploadData ?E ?ms True ?s5), ?s6)"
    by simp
  have a: "storage_accepts ?E (localStorage ?s2) data_key (JSON_stringify ?E ?m)"
    "storage_accepts ?E (localStorage ?s3) settings_key (JSON_stringify ?E ?ms)"
    by (simp_all add: browser_def)
  have v: "JSON_stringify ?E ?m = show_json local_doc" "JSON_stringify ?E ?ms = ''{}''"
    by code_simp+
  have t: "map req_method (requests ?s5) = [''GET'', ''GET'', ''PUT'']" by code_simp
  from syncData_failure_aborts [OF d1 d2 l1 l2 refl refl u1 u2,
      where e = "Error ''Failed to upload to OneDrive''"] a
  have "syncData ?E ?s = (Failure (Error ''Failed to upload to OneDrive''), ?s5)
     \<and> localStorage ?s5 data_key = Some (JSON_stringify ?E ?m)
     \<and> localStorage ?s5 settings_key = Some (JSON_stringify ?E ?ms)"
    by blast
  with v t show ?thesis by simp
qed


lemma syncData_success_data:
  assumes d: "downloadData E False s = (Inr cd, s1)"
    and l: "read_local E data_key s = (Inr ld, s)"
    and run: "syncData E s = (Success d, s')"
  shows "d = merge_docs ld cd"
proof -
  from run have steps: "sync_steps E s = (Inr d, s')"
    by (auto simp: syncData_def split: prod.splits sum.splits)
  from and_then_InrD [OF steps [unfolded sync_steps_def]] d
  have "and_then (downloadData E True) (\<lambda>cloudSettings.
     and_then (read_local E data_key) (\<lambda>localData.
     and_then (read_local E settings_key) (\<lambda>localSettings.
       let mergedData = merge_docs localData cd;
           mergedSettings = merge_docs localSettings cloudSettings
       in and_then (setItem E data_key (JSON_stringify E mergedData)) (\<lambda>_.
          and_then (setItem E settings_key (JSON_stringify E mergedSettings)) (\<lambda>_.
          and_then (uploadData E mergedData False) (\<lambda>_.
          and_then (uploadData E mergedSettings True) (\<lambda>_.
            succeed mergedData))))))) s1 = (Inr d, s')"
    by auto
  from and_then_InrD [OF this] obtain cs s2 where d2: "downloadData E True s1 = (Inr cs, s2)"
    and r2: "and_then (read_local E data_key) (\<lambda>localData.
     and_then (read_local E settings_key) (\<lambda>localSettings.
       let mergedData = merge_docs localData cd;
           mergedSettings = merge_docs localSettings cs
       in and_then (setItem E data_key (JSON_stringify E mergedData)) (\<lambda>_.
          and_then (setItem E settings_key (JSON_stringify E mergedSettings)) (\<lambda>_.
          and_then (uploadData E mergedData False) (\<lambda>_.
          and_then (uploadData E mergedSettings True) (\<lambda>_.
            succeed mergedData)))))) s2 = (Inr d, s')"
    by blast
  have "localStorage s2 = localStorage s"
    using downloadData_localStorage [OF d] downloadData_localStorage [OF d2] by simp
  from read_local_frame [OF this, of E data_key] l
  have l2: "read_local E data_key s2 = (Inr ld, s2)" by simp
  from and_then_InrD [OF r2] l2
  have r3: "and_then (read_local E settings_key) (\<lambda>localSettings.
       let mergedData = merge_docs ld cd;
           mergedSettings = merge_docs localSettings cs
       in and_then (setItem E data_key (JSON_stringify E mergedData)) (\<lambda>_.
          and_then (setItem E settings_key (JSON_stringify E mergedSettings)) (\<lambda>_.
          and_then (uploadData E mergedData False) (\<lambda>_.
          and_then (uploadData E mergedSettings True) (\<lambda>_.
            succeed mergedData))))) s2 = (Inr d, s')"
    by auto
  from and_then_InrD [OF r3] obtain ls sa where
    "(let mergedData = merge_docs ld cd;
           mergedSettings = merge_docs ls cs
       in and_then (setItem E data_key (JSON_stringify E mergedData)) (\<lambda>_.
          and_then (setItem E settings_key (JSON_stringify E mergedSettings)) (\<lambda>_.
          and_then (uploadData E mergedData False) (\<lambda>_.
          and_then (uploadData E mergedSettings True) (\<lambda>_.
            succeed mergedData))))) sa = (Inr d, s')"
    by blast
  then have "and_then (setItem E data_key (JSON_stringify E (merge_docs ld cd))) (\<lambda>_.
          and_then (setItem E settings_key (JSON_stringify E (merge_docs ls cs))) (\<lambda>_.
          and_then (uploadData E (merge_docs ld cd) False) (\<lambda>_.
          and_then (uploadData E (merge_docs ls cs) True) (\<lambda>_.
            succeed (merge_docs ld cd))))) sa = (Inr d, s')"
    by (simp add: Let_def)
  from and_then_InrD [OF this] obtain sb where
    "and_then (setItem E settings_key (JSON_stringify E (merge_docs ls cs))) (\<lambda>_.
          and_then (uploadData E (merge_docs ld cd) False) (\<lambda>_.
          and_then (uploadData E (merge_docs ls cs) True) (\<lambda>_.
            succeed (merge_docs ld cd)))) sb = (Inr d, s')"
    by blast
  from and_then_InrD [OF this] obtain sc where
    "and_then (uploadData E (merge_docs ld cd) False) (\<lambda>_.
          and_then (uploadData E (merge_docs ls cs) True) (\<lambda>_.
            succeed (merge_docs ld cd))) sc = (Inr d, s')"
    by blast
  from and_then_InrD [OF this] obtain sd where
    "and_then (uploadData E (merge_docs ls cs) True) (\<lambda>_.
            succeed (merge_docs ld cd)) sd = (Inr d, s')"
    by blast
  from and_then_InrD [OF this] obtain se where "succeed (merge_docs ld cd) se = (Inr d, s')"
    by blast
  then show ?thesis by (simp add: succeed_def)
qed

lemma merge_docs_lookup:
  assumes "distinct (map fst l)" "distinct (map fst r)"
  shows "map_of (own_props (merge_docs (JObj l) (JObj r))) k
           = (case map_of r k of Some v \<Rightarrow> Some v | None \<Rightarrow> map_of l k)"
proof (cases "map_of r k")
  case None
  then have "k \<notin> fst ` set r" by (simp add: map_of_eq_None_iff)
  then show ?thesis
    using None assms(1)
    by (simp add: merge_docs_def spread_into_empty_object)
       (simp add: spread_into_def fold_update_other)
next
  case (Some v)
  then show ?thesis
    using assms(2) by (simp add: merge_docs_def) (simp add: spread_into_def fold_update_hit)
qed

lemma merge_docs_keys:
  "fst ` set (own_props (merge_docs (JObj l) (JObj r))) = fst ` set l \<union> fst ` set r"
  by (simp add: merge_docs_def) (simp add: spread_into_def fold_update_keys)

text \<open>
  Claim C1. For flat JSON objects \<open>l\<close> (local) and \<open>r\<close> (remote), each with pairwise
  different keys, the merged object of syncData has exactly the keys of both; a key of
  the remote object carries the remote value, whatever the local one was; a key that
  only the local object has keeps its local value. For local \<^verbatim>\<open>{a:1, b:2}\<close> and
  remote \<^verbatim>\<open>{b:3, c:4}\<close> the result is \<^verbatim>\<open>{a:1, b:3, c:4}\<close>. And this merge is what a
  successful syncData returns: the merge of the parsed local document with the
  downloaded one.
\<close>

theorem merge_remote_precedence:
  assumes "distinct (map fst l)" and "distinct (map fst r)"
  shows "map_of (own_props (merge_docs (JObj l) (JObj r))) k
           = (case map_of r k of Some v \<Rightarrow> Some v | None \<Rightarrow> map_of l k)
       \<and> fst ` set (own_props (merge_docs (JObj l) (JObj r))) = fst ` set l \<union> fst ` set r
       \<and> merge_docs (JObj [(''a'', JNum 1), (''b'', JNum 2)]) (JObj [(''b'', JNum 3), (''c'', JNum 4)])
           = JObj [(''a'', JNum 1), (''b'', JNum 3), (''c'', JNum 4)]
       \<and> (downloadData E False s = (Inr (JObj r), s1)
            \<and> read_local E data_key s = (Inr (JObj l), s)
            \<and> syncData E s = (Success d, s') \<longrightarrow> d = merge_docs (JObj l) (JObj r))"
proof -
  have ex: "merge_docs (JObj [(''a'', JNum 1), (''b'', JNum 2)]) (JObj [(''b'', JNum 3), (''c'', JNum 4)])
           = JObj [(''a'', JNum 1), (''b'', JNum 3), (''c'', JNum 4)]"
    by (simp add: merge_docs_def spread_into_def)
  from merge_docs_lookup [OF assms, of k] merge_docs_keys [of l r] ex
    syncData_success_data [of E s "JObj r" s1 "JObj l" d s']
  show ?thesis by blast
qed

theorem merge_remote_precedence_witness:
  "distinct (map fst [(''a'', JNum 1), (''b'', JNum 2)])
   \<and> distinct (map fst [(''b'', JNum 3), (''c'', JNum 4)])
   \<and> fst (downloadData (browser [Response 200 (Some remote_doc), Response 404 None,
                                  Response 200 (Some (JObj [])), Response 201 (Some (JObj []))]
                                 [JObj [], local_doc]) False (with_local_doc onedrive_page))
       = Inr (JObj [(''b'', JNum 3), (''c'', JNum 4)])
   \<and> fst (read_local (browser [Response 200 (Some remote_doc), Response 404 None,
                                Response 200 (Some (JObj [])), Response 201 (Some (JObj []))]
                               [JObj [], local_doc]) data_key (with_local_doc onedrive_page))
       = Inr (JObj [(''a'', JNum 1), (''b'', JNum 2)])
   \<and> fst (syncData (browser [Response 200 (Some remote_doc), Response 404 None,
                             Response 200 (Some (JObj [])), Response 201 (Some (JObj []))]
                            [JObj [], local_doc]) (with_local_doc onedrive_page))
       = Success (JObj [(''a'', JNum 1), (''b'', JNum 3), (''c'', JNum 4)])
   \<and> map_of (own_props (merge_docs (JObj [(''a'', JNum 1), (''b'', JNum 2)])
                                   (JObj [(''b'', JNum 3), (''c'', JNum 4)]))) ''b'' = Some (JNum 3)"
proof -
  let ?E = "browser [Response 200 (Some remote_doc), Response 404 None,
                     Response 200 (Some (JObj [])), Response 201 (Some (JObj []))]
                    [JObj [], local_doc]"
  let ?s = "with_local_doc onedrive_page"
  let ?l = "[(''a'', JNum 1), (''b'', JNum 2)]"
  let ?r = "[(''b'', JNum 3), (''c'', JNum 4)]"
  have dl: "distinct (map fst ?l)" and dr: "distinct (map fst ?r)" by simp_all
  have d1: "fst (downloadData ?E False ?s) = Inr (JObj ?r)" by code_simp
  then have d: "downloadData ?E False ?s = (Inr (JObj ?r), snd (downloadData ?E False ?s))"
    by (rule collapse_run)
  have l1: "fst (read_local ?E data_key ?s) = Inr (JObj ?l)" by code_simp
  then have l: "read_local ?E data_key ?s = (Inr (JObj ?l), ?s)"
    by (metis prod.collapse read_local_state)
  obtain d' where succ: "fst (syncData ?E ?s) = Success d'"
  proof -
    have "fst (syncData ?E ?s) = Success (JObj [(''a'', JNum 1), (''b'', JNum 3), (''c'', JNum 4)])"
      by code_simp
    then show ?thesis using that by blast
  qed
  from succ have run: "syncData ?E ?s = (Success d', snd (syncData ?E ?s))" by (rule collapse_run)
  note inst = merge_remote_precedence [OF dl dr, where k = "''b''" and E = "?E" and s = "?s"
      and ?s1.0 = "snd (downloadData ?E False ?s)" and d = d' and s' = "snd (syncData ?E ?s)"]
  from inst d l run have "d' = JObj [(''a'', JNum 1), (''b'', JNum 3), (''c'', JNum 4)]" by simp
  with succ have r: "fst (syncData ?E ?s) = Success (JObj [(''a'', JNum 1), (''b'', JNum 3), (''c'', JNum 4)])"
    by simp
  from inst have b: "map_of (own_props (merge_docs (JObj ?l) (JObj ?r))) ''b'' = Some (JNum 3)"
    by simp
  from dl dr d1 l1 r b show ?thesis by blast
qed


section \<open>The first sync\<close>
































section \<open>An unauthorized answer\<close>

lemma network_only_credential:
  "network_only s s' \<Longrightarrow>
   accessToken s' = accessToken s \<and> localStorage s' = localStorage s \<and> provider s' = provider s"
  by (auto simp: network_only_def)

lemma uploadToBox_refused:
  assumes "ensureBoxFolder E s = (Inr folder, s1)" "findBoxFile E name folder s1 = (Inr fid, s2)"
    "net E (length (requests s2)) = Response st b" "\<not> ok (st, b)"
  shows "uploadToBox E data name s =
     (Inl (Error ''Failed to upload to Box''),
      s2\<lparr>requests := requests s2 @ [box_upload_request E data name folder fid s2]\<rparr>)"
  using assms by (simp add: uploadToBox_def and_then_def fetch_def throw_def)

lemma uploadToGDrive_refused:
  assumes "ensureGDriveFolder E s = (Inr folder, s1)" "findGDriveFile E name folder s1 = (Inr fid, s2)"
    "net E (length (requests s2)) = Response st b" "\<not> ok (st, b)"
  shows "uploadToGDrive E data name s =
     (Inl (Error ''Failed to upload to Google Drive''),
      s2\<lparr>requests := requests s2 @ [gdrive_upload_request E data name folder fid s2]\<rparr>)"
  using assms by (simp add: uploadToGDrive_def and_then_def fetch_def throw_def)

lemma uploadToOneDrive_refused:
  assumes "net E (length (requests s)) = Response st b" "\<not> ok (st, b)"
  shows "uploadToOneDrive E data name s =
     (Inl (Error ''Failed to upload to OneDrive''),
      s\<lparr>requests := requests s @ [onedrive_upload_request E data name s]\<rparr>)"
  using assms by (simp add: uploadToOneDrive_def and_then_def fetch_def throw_def)

lemma downloadFromOneDrive_refused:
  assumes "net E (length (requests s)) = Response st b" "\<not> ok (st, b)" "st \<noteq> 404"
  shows "downloadFromOneDrive E name s =
     (Inl (Error ''Failed to download from OneDrive''),
      s\<lparr>requests := requests s @ [onedrive_download_request name s]\<rparr>)"
  using assms by (simp add: downloadFromOneDrive_def and_then_def fetch_def throw_def)

lemma ensureBoxFolder_refused:
  assumes "\<not> truthy (folderId s)"
    and "net E (length (requests s)) = Response st b" "\<not> ok (st, b)"
    and "net E (Suc (length (requests s))) = Response st' b'" "\<not> ok (st', b')"
  shows "ensureBoxFolder E s =
     (Inl (Error ''Failed to create folder in Box''),
      s\<lparr>requests := requests s @ [box_search_request s, box_create_folder_request E s]\<rparr>)"
  using assms
  by (simp add: ensureBoxFolder_def and_then_def fetch_def adopt_found_folder_def
        adopt_created_folder_def succeed_def throw_def box_create_folder_request_def
        authorization_def)

lemma ensureGDriveFolder_refused:
  assumes "\<not> truthy (folderId s)"
    and "net E (length (requests s)) = Response st b" "\<not> ok (st, b)"
    and "net E (Suc (length (requests s))) = Response st' b'" "\<not> ok (st', b')"
  shows "ensureGDriveFolder E s =
     (Inl (Error ''Failed to create folder in Google Drive''),
      s\<lparr>requests := requests s @ [gdrive_search_request s, gdrive_create_folder_request E s]\<rparr>)"
  using assms
  by (simp add: ensureGDriveFolder_def and_then_def fetch_def adopt_found_folder_def
        adopt_created_folder_def succeed_def throw_def gdrive_create_folder_request_def
        authorization_def)

text \<open>
  Claim C2, as the code has it. No operation of the adapters purges the credential:
  whatever the answers, uploadData and downloadData leave the instance's token and
  localStorage as they were. A 401 is handled like every other answer that is not ok:
  the content calls of upload and download throw the operation's one error
  (\<^verbatim>\<open>Failed to upload to ...\<close>, \<^verbatim>\<open>Failed to download from ...\<close>), the file lookups
  return null, and the folder search goes on to the creation call, whose failure throws
  \<^verbatim>\<open>Failed to create folder in ...\<close>.
\<close>

theorem unauthorized_like_any_failure:
  assumes "net E (length (requests s2)) = Response st b" and "\<not> ok (st, b)" and "st \<noteq> 404"
  shows "(uploadData E data isSettings s = (r, s') \<longrightarrow>
            accessToken s' = accessToken s \<and> localStorage s' = localStorage s)
       \<and> (downloadData E isSettings s = (r', s') \<longrightarrow>
            accessToken s' = accessToken s \<and> localStorage s' = localStorage s)
       \<and> fst (uploadToOneDrive E data name s2) = Inl (Error ''Failed to upload to OneDrive'')
       \<and> fst (downloadFromOneDrive E name s2) = Inl (Error ''Failed to download from OneDrive'')
       \<and> fst (findBoxFile E name folder s2) = Inr (Some JNull)
       \<and> fst (findGDriveFile E name folder s2) = Inr (Some JNull)
       \<and> (ensureBoxFolder E s = (Inr folder, s1) \<and> findBoxFile E name folder s1 = (Inr fid, s2) \<longrightarrow>
            fst (uploadToBox E data name s) = Inl (Error ''Failed to upload to Box'')
            \<and> (truthy fid \<longrightarrow> fst (downloadFromBox E name s) = Inl (Error ''Failed to download from Box'')))
       \<and> (ensureGDriveFolder E s = (Inr folder, s1) \<and> findGDriveFile E name folder s1 = (Inr fid, s2) \<longrightarrow>
            fst (uploadToGDrive E data name s) = Inl (Error ''Failed to upload to Google Drive'')
            \<and> (truthy fid \<longrightarrow>
                 fst (downloadFromGDrive E name s) = Inl (Error ''Failed to download from Google Drive'')))
       \<and> (\<not> truthy (folderId s2) \<and> net E (Suc (length (requests s2))) = Response st c \<longrightarrow>
            fst (ensureBoxFolder E s2) = Inl (Error ''Failed to create folder in Box'')
            \<and> fst (ensureGDriveFolder E s2) = Inl (Error ''Failed to create folder in Google Drive''))"
proof -
  have up: "accessToken s' = accessToken s \<and> localStorage s' = localStorage s"
    if "uploadData E data isSettings s = (r, s')"
    using net_opD [OF net_op_uploadData that] by (simp add: network_only_credential)
  have down: "accessToken s' = accessToken s \<and> localStorage s' = localStorage s"
    if "downloadData E isSettings s = (r', s')"
    using net_opD [OF net_op_downloadData that] by (simp add: network_only_credential)
  have k: "\<not> ok (st, c)" using assms(2) by (simp add: ok_def)
  have box: "fst (uploadToBox E data name s) = Inl (Error ''Failed to upload to Box'')
            \<and> (truthy fid \<longrightarrow> fst (downloadFromBox E name s) = Inl (Error ''Failed to download from Box''))"
    if "ensureBoxFolder E s = (Inr folder, s1)" "findBoxFile E name folder s1 = (Inr fid, s2)"
    using uploadToBox_refused [OF that assms(1,2), of data]
      downloadFromBox_refused [OF that _ assms(1,2)]
    by simp
  have gd: "fst (uploadToGDrive E data name s) = Inl (Error ''Failed to upload to Google Drive'')
            \<and> (truthy fid \<longrightarrow>
                 fst (downloadFromGDrive E name s) = Inl (Error ''Failed to download from Google Drive''))"
    if "ensureGDriveFolder E s = (Inr folder, s1)" "findGDriveFile E name folder s1 = (Inr fid, s2)"
    using uploadToGDrive_refused [OF that assms(1,2), of data]
      downloadFromGDrive_refused [OF that _ assms(1,2)]
    by simp
  have fold: "fst (ensureBoxFolder E s2) = Inl (Error ''Failed to create folder in Box'')
            \<and> fst (ensureGDriveFolder E s2) = Inl (Error ''Failed to create folder in Google Drive'')"
    if "\<not> truthy (folderId s2)" "net E (Suc (length (requests s2))) = Response st c"
    using ensureBoxFolder_refused [OF that(1) assms(1,2) that(2) k]
      ensureGDriveFolder_refused [OF that(1) assms(1,2) that(2) k]
    by simp
  from up down box gd fold
    uploadToOneDrive_refused [OF assms(1,2), of data name]
    downloadFromOneDrive_refused [OF assms, of name]
    findBoxFile_not_ok [OF assms(1,2), of name folder]
    findGDriveFile_not_ok [OF assms(1,2), of name folder]
  show ?thesis by simp
qed

theorem unauthorized_like_any_failure_witness:
  "\<not> ok (401, None)
   \<and> fst (findBoxFile (browser [box_listing_with_data, Response 401 None] []) fileName
            (Some (JStr ''F1'')) box_cached_page) = Inr (Some (JStr ''f9''))
   \<and> net (browser [box_listing_with_data, Response 401 None] [])
        (length (requests (snd (findBoxFile (browser [box_listing_with_data, Response 401 None] [])
                                  fileName (Some (JStr ''F1'')) box_cached_page))))
       = Response 401 None
   \<and> fst (uploadToBox (browser [box_listing_with_data, Response 401 None] []) (JObj []) fileName
            box_cached_page) = Inl (Error ''Failed to upload to Box'')
   \<and> fst (downloadFromBox (browser [box_listing_with_data, Response 401 None] []) fileName
            box_cached_page) = Inl (Error ''Failed to download from Box'')
   \<and> accessToken (snd (uploadData (browser [box_listing_with_data, Response 401 None] []) (JObj [])
                         False box_cached_page)) = Some ''tok''
   \<and> localStorage (snd (uploadData (browser [box_listing_with_data, Response 401 None] []) (JObj [])
                         False box_cached_page)) ''box_access_token'' = Some ''tok''"
proof -
  let ?E = "browser [box_listing_with_data, Response 401 None] []"
  let ?s2 = "snd (findBoxFile ?E fileName (Some (JStr ''F1'')) box_cached_page)"
  have k: "\<not> ok (401, None)" by (simp add: ok_def)
  have e: "ensureBoxFolder ?E box_cached_page = (Inr (Some (JStr ''F1'')), box_cached_page)"
    using ensureBoxFolder_cached [of box_cached_page ?E] by (simp add: box_cached_page_def)
  have f1: "fst (findBoxFile ?E fileName (Some (JStr ''F1'')) box_cached_page) = Inr (Some (JStr ''f9''))"
    by code_simp
  then have f: "findBoxFile ?E fileName (Some (JStr ''F1'')) box_cached_page = (Inr (Some (JStr ''f9'')), ?s2)"
    by (rule collapse_run)
  have n: "net ?E (length (requests ?s2)) = Response 401 None" by code_simp
  have t: "accessToken box_cached_page = Some ''tok''"
    "localStorage box_cached_page ''box_access_token'' = Some ''tok''"
    by (simp_all add: box_cached_page_def fresh_pages)
  note inst = unauthorized_like_any_failure [OF n k, where s = box_cached_page
      and ?s1.0 = box_cached_page and folder = "Some (JStr ''F1'')" and name = fileName
      and fid = "Some (JStr ''f9'')" and data = "JObj []" and isSettings = False
      and r = "fst (uploadData ?E (JObj []) False box_cached_page)"
      and s' = "snd (uploadData ?E (JObj []) False box_cached_page)"]
  from inst e f have u: "fst (uploadToBox ?E (JObj []) fileName box_cached_page) = Inl (Error ''Failed to upload to Box'')"
    and d: "fst (downloadFromBox ?E fileName box_cached_page) = Inl (Error ''Failed to download from Box'')"
    by simp_all
  from inst t have c: "accessToken (snd (uploadData ?E (JObj []) False box_cached_page)) = Some ''tok''"
    "localStorage (snd (uploadData ?E (JObj []) False box_cached_page)) ''box_access_token'' = Some ''tok''"
    by simp_all
  from k f1 n u d c show ?thesis by blast
qed

text \<open>
  Claim C2 as stated fails. The token \<^verbatim>\<open>tok\<close> is in localStorage and in the
  instance; the content call of uploadToBox, and the only call of downloadFromOneDrive,
  are answered 401. Both throw the same error as for a 500, and token and localStorage
  are as before: nothing is purged and the error is the generic one.
\<close>

theorem unauthorized_is_generic_failure:
  "fst (uploadToBox (browser [box_folder_found, box_listing_with_data, Response 401 None] [])
          (JObj []) fileName box_page) = Inl (Error ''Failed to upload to Box'')
   \<and> fst (uploadToBox (browser [box_folder_found, box_listing_with_data, Response 500 None] [])
          (JObj []) fileName box_page) = Inl (Error ''Failed to upload to Box'')
   \<and> accessToken (snd (uploadToBox (browser [box_folder_found, box_listing_with_data, Response 401 None] [])
          (JObj []) fileName box_page)) = Some ''tok''
   \<and> localStorage (snd (uploadToBox (browser [box_folder_found, box_listing_with_data, Response 401 None] [])
          (JObj []) fileName box_page)) ''box_access_token'' = Some ''tok''
   \<and> fst (downloadFromOneDrive (browser [Response 401 None] []) fileName onedrive_page)
       = Inl (Error ''Failed to download from OneDrive'')
   \<and> fst (downloadFromOneDrive (browser [Response 500 None] []) fileName onedrive_page)
       = Inl (Error ''Failed to download from OneDrive'')
   \<and> accessToken (snd (downloadFromOneDrive (browser [Response 401 None] []) fileName onedrive_page))
       = Some ''tok''
   \<and> localStorage (snd (downloadFromOneDrive (browser [Response 401 None] []) fileName onedrive_page))
       ''onedrive_access_token'' = Some ''tok''"
  by (intro conjI; code_simp)

end
